theory Spec2Isabelle
  imports Complex_Main "HOL-Library.Multiset"
begin

section \<open>Python values and exceptions\<close>

text \<open>
  The exceptions that the modelled functions of \<^verbatim>\<open>mmworkbench/models/model.py\<close> can raise.
  \<open>TypeError\<close> and \<open>ValueError\<close> carry the text of their message (without the formatted
  argument), \<open>KeyError\<close> the missing key.
\<close>

datatype error =
    TypeError string
  | ValueError string
  | KeyError string
  | IndexError
  | ZeroDivisionError
  | AttributeError
  | UnboundLocalError

text \<open>
  The values that occur in configuration dictionaries: \<^verbatim>\<open>None\<close>, integers, strings,
  lists and nested dictionaries. A dictionary is an association list, looked up with \<open>map_of\<close>.
\<close>

datatype pyval =
    PyNone
  | PyInt int
  | PyStr string
  | PyList "pyval list"
  | PyDict "(string \<times> pyval) list"

type_synonym pydict = "(string \<times> pyval) list"

text \<open>\<^verbatim>\<open>d[key]\<close>: raises \<^verbatim>\<open>KeyError\<close> when the key is absent.\<close>

definition getitem :: "pydict \<Rightarrow> string \<Rightarrow> error + pyval" where
  "getitem d key = (case map_of d key of None \<Rightarrow> Inl (KeyError key) | Some v \<Rightarrow> Inr v)"

text \<open>\<^verbatim>\<open>d.get(key, default)\<close>; \<^verbatim>\<open>d.get(key)\<close> is \<open>dict_get d key PyNone\<close>.\<close>

definition dict_get :: "pydict \<Rightarrow> string \<Rightarrow> pyval \<Rightarrow> pyval" where
  "dict_get d key dflt = (case map_of d key of None \<Rightarrow> dflt | Some v \<Rightarrow> v)"

text \<open>Truthiness of an optional dictionary: \<^verbatim>\<open>None\<close> and \<^verbatim>\<open>{}\<close> are falsy.\<close>

fun truthy :: "pydict option \<Rightarrow> bool" where
  "truthy None = False"
| "truthy (Some d) = (d \<noteq> [])"

text \<open>\<^verbatim>\<open>a or b\<close> on optional dictionaries.\<close>

definition py_or :: "pydict option \<Rightarrow> pydict option \<Rightarrow> pydict option" where
  "py_or a b = (if truthy a then a else b)"

section \<open>ModelConfig\<close>

record ModelConfig =
  model_type :: string
  example_type :: string
  label_type :: string
  features :: pydict
  model_settings :: "pydict option"
  params :: "pydict option"
  param_selection :: "pydict option"

text \<open>
  \<^verbatim>\<open>ModelConfig.__init__\<close>. An argument that is \<^verbatim>\<open>None\<close> is \<open>None\<close>. The loop over the
  four required arguments raises at the first one that is \<^verbatim>\<open>None\<close>.
\<close>

fun first_missing :: "(string \<times> bool) list \<Rightarrow> string option" where
  "first_missing [] = None"
| "first_missing ((arg, is_none) # rest) = (if is_none then Some arg else first_missing rest)"

definition ModelConfig_init ::
  "string option \<Rightarrow> string option \<Rightarrow> string option \<Rightarrow> pydict option \<Rightarrow>
   pydict option \<Rightarrow> pydict option \<Rightarrow> pydict option \<Rightarrow> error + ModelConfig" where
  "ModelConfig_init mt et lt fs ms ps psel =
     (case first_missing [(''model_type'', mt = None), (''example_type'', et = None),
                          (''label_type'', lt = None), (''features'', fs = None)] of
        Some arg \<Rightarrow> Inl (TypeError (''__init__() missing required argument '' @ arg))
      | None \<Rightarrow>
          if ps = None \<and> (case psel of None \<Rightarrow> True
                                      | Some sel \<Rightarrow> dict_get sel ''grid'' PyNone = PyNone)
          then Inl (ValueError ''__init__() One of 'params' and 'param_selection' is required'')
          else Inr \<lparr> model_type = the mt, example_type = the et, label_type = the lt,
                     features = the fs, model_settings = ms, params = ps,
                     param_selection = psel \<rparr>)"

definition is_TypeError :: "error + 'a \<Rightarrow> bool" where
  "is_TypeError r = (case r of Inl (TypeError _) \<Rightarrow> True | _ \<Rightarrow> False)"

definition is_ValueError :: "error + 'a \<Rightarrow> bool" where
  "is_ValueError r = (case r of Inl (ValueError _) \<Rightarrow> True | _ \<Rightarrow> False)"

section \<open>Label encoders\<close>

text \<open>
  The two encoder classes and the registrations at the end of the module
  (\<^verbatim>\<open>register_label('class', LabelEncoder)\<close>, \<^verbatim>\<open>register_label('entities', EntityLabelEncoder)\<close>).
\<close>

datatype encoder_class = LabelEncoder | EntityLabelEncoder

definition registered_labels :: "(string \<times> encoder_class) list" where
  "registered_labels = [(''class'', LabelEncoder), (''entities'', EntityLabelEncoder)]"

text \<open>\<^verbatim>\<open>LabelEncoder.encode\<close> and \<^verbatim>\<open>LabelEncoder.decode\<close>; the keyword arguments are ignored.\<close>

definition encode :: "'l list \<Rightarrow> 'k \<Rightarrow> 'l list" where
  "encode labels kwargs = labels"

definition decode :: "'l list \<Rightarrow> 'k \<Rightarrow> 'l list" where
  "decode classes kwargs = classes"

section \<open>Cross-validation iterators\<close>

text \<open>
  The splitters of the external library, as the constructor calls that build them:
  the value passed as \<^verbatim>\<open>n_splits\<close> and, for the shuffling splitters, the test fraction
  \<^verbatim>\<open>test_size\<close> (a float in the source, here the rational it denotes).
\<close>

datatype cv_iterator =
    KFold pyval
  | ShuffleSplit pyval rat
  | GroupKFold pyval
  | GroupShuffleSplit pyval rat
  | StratifiedKFold pyval
  | StratifiedShuffleSplit pyval rat

text \<open>\<^verbatim>\<open>1.0 / k\<close>: division by zero raises, a non-number raises \<^verbatim>\<open>TypeError\<close>.\<close>

fun one_over :: "pyval \<Rightarrow> error + rat" where
  "one_over (PyInt k) = (if k = 0 then Inl ZeroDivisionError else Inr (1 / of_int k))"
| "one_over _ = Inl (TypeError ''unsupported operand type(s) for /'')"

definition k_fold_iterator :: "pydict \<Rightarrow> error + cv_iterator" where
  "k_fold_iterator settings =
     (case getitem settings ''k'' of Inl e \<Rightarrow> Inl e | Inr k \<Rightarrow> Inr (KFold k))"

definition shuffle_iterator :: "pydict \<Rightarrow> error + cv_iterator" where
  "shuffle_iterator settings =
     (case getitem settings ''k'' of Inl e \<Rightarrow> Inl e
      | Inr k \<Rightarrow>
         (let n = dict_get settings ''n'' k in
          case one_over k of Inl e \<Rightarrow> Inl e
          | Inr test_size \<Rightarrow> Inr (ShuffleSplit n test_size)))"

definition groups_k_fold_iterator :: "pydict \<Rightarrow> error + cv_iterator" where
  "groups_k_fold_iterator settings =
     (case getitem settings ''k'' of Inl e \<Rightarrow> Inl e | Inr k \<Rightarrow> Inr (GroupKFold k))"

definition groups_shuffle_iterator :: "pydict \<Rightarrow> error + cv_iterator" where
  "groups_shuffle_iterator settings =
     (case getitem settings ''k'' of Inl e \<Rightarrow> Inl e
      | Inr k \<Rightarrow>
         (let n = dict_get settings ''n'' k in
          case one_over k of Inl e \<Rightarrow> Inl e
          | Inr test_size \<Rightarrow> Inr (GroupShuffleSplit n test_size)))"

definition stratified_k_fold_iterator :: "pydict \<Rightarrow> error + cv_iterator" where
  "stratified_k_fold_iterator settings =
     (case getitem settings ''k'' of Inl e \<Rightarrow> Inl e | Inr k \<Rightarrow> Inr (StratifiedKFold k))"

definition stratified_shuffle_iterator :: "pydict \<Rightarrow> error + cv_iterator" where
  "stratified_shuffle_iterator settings =
     (case getitem settings ''k'' of Inl e \<Rightarrow> Inl e
      | Inr k \<Rightarrow>
         (let n = dict_get settings ''n'' k in
          case one_over k of Inl e \<Rightarrow> Inl e
          | Inr test_size \<Rightarrow> Inr (StratifiedShuffleSplit n test_size)))"

text \<open>
  The dispatch table of \<^verbatim>\<open>_get_cv_iterator\<close>, read with \<^verbatim>\<open>.get(cv_type)\<close>: an unknown
  type gives \<^verbatim>\<open>None\<close>.
\<close>

definition cv_dispatch :: "(pyval \<times> (pydict \<Rightarrow> error + cv_iterator)) list" where
  "cv_dispatch =
     [(PyStr ''k-fold'', k_fold_iterator),
      (PyStr ''shuffle'', shuffle_iterator),
      (PyStr ''group-k-fold'', groups_k_fold_iterator),
      (PyStr ''group-shuffle'', groups_shuffle_iterator),
      (PyStr ''stratified-k-fold'', stratified_k_fold_iterator),
      (PyStr ''stratified-shuffle'', stratified_shuffle_iterator)]"

definition supported_cv_types :: "pyval list" where
  "supported_cv_types = map fst cv_dispatch"

text \<open>
  \<^verbatim>\<open>Model._get_cv_iterator\<close>. The subscript \<^verbatim>\<open>settings['type']\<close> is outside the
  \<^verbatim>\<open>try\<close>; the table lookup and the call are inside it. Calling the \<^verbatim>\<open>None\<close> that
  \<^verbatim>\<open>.get\<close> returns for an unknown type raises \<^verbatim>\<open>TypeError\<close>, which the handler for
  \<^verbatim>\<open>KeyError\<close> lets through; a \<^verbatim>\<open>KeyError\<close> raised inside the called iterator
  function is turned into the \<^verbatim>\<open>ValueError\<close>.
\<close>

definition get_cv_iterator :: "pydict option \<Rightarrow> error + cv_iterator option" where
  "get_cv_iterator settings =
     (if \<not> truthy settings then Inr None
      else case getitem (the settings) ''type'' of
             Inl e \<Rightarrow> Inl e
           | Inr cv_type \<Rightarrow>
               (case (case map_of cv_dispatch cv_type of
                        None \<Rightarrow> Inl (TypeError '''NoneType' object is not callable'')
                      | Some iter \<Rightarrow> iter (the settings)) of
                  Inl (KeyError _) \<Rightarrow> Inl (ValueError ''Unknown param selection type'')
                | Inl e \<Rightarrow> Inl e
                | Inr cv \<Rightarrow> Inr (Some cv)))"

section \<open>Raw results of an evaluation\<close>

record ('e, 'l) EvaluatedExample =
  example :: 'e
  expected :: 'l
  predicted :: 'l
  probas :: "('l \<times> rat) list"

record 'l RawResults =
  predicted :: "nat list"
  expected :: "nat list"
  text_labels :: "'l list"

text \<open>\<^verbatim>\<open>xs.index(x)\<close>: the first position of \<open>x\<close>, \<^verbatim>\<open>ValueError\<close> when it is absent.\<close>

fun list_index :: "'a list \<Rightarrow> 'a \<Rightarrow> nat option" where
  "list_index [] x = None"
| "list_index (y # ys) x = (if y = x then Some 0 else map_option Suc (list_index ys x))"

text \<open>\<^verbatim>\<open>ModelEvaluation._update_raw_result\<close>; the two lists are returned updated.\<close>

definition update_raw_result ::
  "'l \<Rightarrow> 'l list \<Rightarrow> nat list \<Rightarrow> error + ('l list \<times> nat list)" where
  "update_raw_result label tls vec =
     (let tls' = (if label \<notin> set tls then tls @ [label] else tls) in
      case list_index tls' label of
        None \<Rightarrow> Inl (ValueError ''is not in list'')
      | Some i \<Rightarrow> Inr (tls', vec @ [i]))"

text \<open>The loop of \<^verbatim>\<open>StandardModelEvaluation.raw_results\<close> over the results.\<close>

fun raw_results_loop ::
  "('e, 'l) EvaluatedExample list \<Rightarrow> 'l list \<times> nat list \<times> nat list \<Rightarrow>
   error + ('l list \<times> nat list \<times> nat list)" where
  "raw_results_loop [] acc = Inr acc"
| "raw_results_loop (result # rest) (tls, predicted0, expected0) =
     (case update_raw_result (EvaluatedExample.predicted result) tls predicted0 of
        Inl e \<Rightarrow> Inl e
      | Inr (tls1, predicted1) \<Rightarrow>
          (case update_raw_result (EvaluatedExample.expected result) tls1 expected0 of
             Inl e \<Rightarrow> Inl e
           | Inr (tls2, expected1) \<Rightarrow> raw_results_loop rest (tls2, predicted1, expected1)))"

definition raw_results :: "('e, 'l) EvaluatedExample list \<Rightarrow> error + 'l RawResults" where
  "raw_results results =
     (case raw_results_loop results ([], [], []) of
        Inl e \<Rightarrow> Inl e
      | Inr (tls, predicted0, expected0) \<Rightarrow>
          Inr \<lparr> RawResults.predicted = predicted0, RawResults.expected = expected0, text_labels = tls \<rparr>)"

text \<open>
  A vector of numeric labels decodes to a list of labels through the list of text labels:
  it has one valid index per label, which points at that label.
\<close>

definition decodes :: "'l list \<Rightarrow> nat list \<Rightarrow> 'l list \<Rightarrow> bool" where
  "decodes tls vec labels =
     (length vec = length labels
      \<and> (\<forall>i<length labels. vec ! i < length tls \<and> tls ! (vec ! i) = labels ! i))"

section \<open>Confusion matrix and counts\<close>

text \<open>
  The confusion matrix of the external library, from its documentation: the labels are
  the sorted distinct values that occur in either vector, and entry \<open>i, j\<close> counts the
  observations whose true label is the \<open>i\<close>-th of them and whose predicted label is the
  \<open>j\<close>-th. Vectors of different lengths are rejected.
\<close>

definition unique_labels :: "nat list \<Rightarrow> nat list \<Rightarrow> nat list" where
  "unique_labels y_true y_pred = sort (remdups (y_true @ y_pred))"

definition confusion_matrix :: "nat list \<Rightarrow> nat list \<Rightarrow> error + nat list list" where
  "confusion_matrix y_true y_pred =
     (if length y_true \<noteq> length y_pred
      then Inl (ValueError ''Found input variables with inconsistent numbers of samples'')
      else Inr (let ls = unique_labels y_true y_pred in
                map (\<lambda>a. map (\<lambda>b. count_list (zip y_true y_pred) (a, b)) ls) ls))"

text \<open>The array operations used to build and apply the masks.\<close>

definition np_ones :: "nat \<Rightarrow> nat list list" where
  "np_ones n = replicate n (replicate n 1)"

definition np_zeros :: "nat \<Rightarrow> nat list list" where
  "np_zeros n = replicate n (replicate n 0)"

text \<open>\<^verbatim>\<open>mask[:, j] = v\<close>\<close>

definition set_column :: "nat list list \<Rightarrow> nat \<Rightarrow> nat \<Rightarrow> nat list list" where
  "set_column msk j v = map (\<lambda>row. row[j := v]) msk"

text \<open>\<^verbatim>\<open>mask[i, :] = v\<close>\<close>

definition set_row :: "nat list list \<Rightarrow> nat \<Rightarrow> nat \<Rightarrow> nat list list" where
  "set_row msk i v = msk[i := map (\<lambda>_. v) (msk ! i)]"

text \<open>\<^verbatim>\<open>mask[i, j] = v\<close>\<close>

definition set_cell :: "nat list list \<Rightarrow> nat \<Rightarrow> nat \<Rightarrow> nat \<Rightarrow> nat list list" where
  "set_cell msk i j v = msk[i := (msk ! i)[j := v]]"

text \<open>\<^verbatim>\<open>np.sum(mask*confusion_mat)\<close>: the elementwise product, then the sum of all entries.\<close>

definition mat_times :: "nat list list \<Rightarrow> nat list list \<Rightarrow> nat list list" where
  "mat_times A B = map2 (\<lambda>ra rb. map2 (*) ra rb) A B"

definition np_sum :: "nat list list \<Rightarrow> nat" where
  "np_sum A = sum_list (map sum_list A)"

record 'a Counts =
  TP :: 'a
  TN :: 'a
  FP :: 'a
  FN :: 'a

record confusion_stats =
  confusion_mat :: "nat list list"
  counts_by_class :: "nat list Counts"
  counts_overall :: "nat Counts"

text \<open>
  The body of the loop of the multi-class case for one \<open>class_index\<close>. The mask for
  \<open>FN\<close> is built by the same three statements as the mask for \<open>FP\<close>.
\<close>

definition class_counts :: "nat list list \<Rightarrow> nat \<Rightarrow> nat Counts" where
  "class_counts confusion class_index =
     (let num_classes = length confusion;
          tp = confusion ! class_index ! class_index;
          mask_tn = set_row (set_column (np_ones num_classes) class_index 0) class_index 0;
          tn = np_sum (mat_times mask_tn confusion);
          mask_fp = set_cell (set_column (np_zeros num_classes) class_index 1)
                      class_index class_index 0;
          fp = np_sum (mat_times mask_fp confusion);
          mask_fn = set_cell (set_column (np_zeros num_classes) class_index 1)
                      class_index class_index 0;
          fn = np_sum (mat_times mask_fn confusion)
      in \<lparr> TP = tp, TN = tn, FP = fp, FN = fn \<rparr>)"

text \<open>\<^verbatim>\<open>ModelEvaluation._get_confusion_matrix_and_counts\<close>\<close>

definition counts_of_matrix :: "nat list list \<Rightarrow> confusion_stats" where
  "counts_of_matrix confusion =
     (let arrs =
            (if length confusion = 2
             then \<lparr> TP = [confusion ! 1 ! 1], TN = [confusion ! 0 ! 0],
                    FP = [confusion ! 0 ! 1], FN = [confusion ! 1 ! 0] \<rparr>
             else let cs = map (class_counts confusion) [0..<length confusion]
                  in \<lparr> TP = map TP cs, TN = map TN cs, FP = map FP cs, FN = map FN cs \<rparr>)
      in \<lparr> confusion_mat = confusion,
           counts_by_class = arrs,
           counts_overall = \<lparr> TP = sum_list (TP arrs), TN = sum_list (TN arrs),
                               FP = sum_list (FP arrs), FN = sum_list (FN arrs) \<rparr> \<rparr>)"

definition get_confusion_matrix_and_counts ::
  "nat list \<Rightarrow> nat list \<Rightarrow> error + confusion_stats" where
  "get_confusion_matrix_and_counts y_true y_pred =
     (case confusion_matrix y_true y_pred of
        Inl e \<Rightarrow> Inl e
      | Inr confusion \<Rightarrow> Inr (counts_of_matrix confusion))"

text \<open>A square matrix of side \<open>n\<close>.\<close>

definition square :: "nat \<Rightarrow> nat list list \<Rightarrow> bool" where
  "square n C = (length C = n \<and> list_all (\<lambda>row. length row = n) C)"

section \<open>Common statistics and the table of statistics by class\<close>

record common_stats =
  stats_overall :: "(string \<times> rat) list"
  class_stats :: "(string \<times> rat list) list"
  confusion_matrix_of :: "nat list list"

text \<open>\<^verbatim>\<open>EvaluatedExample.is_correct\<close> and \<^verbatim>\<open>ModelEvaluation.get_accuracy\<close>.\<close>

definition is_correct :: "('e, 'l) EvaluatedExample \<Rightarrow> bool" where
  "is_correct r = (EvaluatedExample.expected r = EvaluatedExample.predicted r)"

definition get_accuracy :: "('e, 'l) EvaluatedExample list \<Rightarrow> error + rat" where
  "get_accuracy results =
     (let num_examples = length results; num_correct = length (filter is_correct results)
      in if num_examples = 0 then Inl ZeroDivisionError
         else Inr (of_nat num_correct / of_nat num_examples))"

text \<open>
  \<^verbatim>\<open>ModelEvaluation._get_class_stats\<close>. The scoring function of the external library is
  the parameter \<open>score\<close>: from the two vectors and the list of labels it returns the
  vectors of precision, recall, f-beta and support, one entry per label passed.
\<close>

type_synonym scorer = "nat list \<Rightarrow> nat list \<Rightarrow> nat list \<Rightarrow> rat list \<times> rat list \<times> rat list \<times> rat list"

definition get_class_stats :: "scorer \<Rightarrow> nat list \<Rightarrow> nat list \<Rightarrow> nat list \<Rightarrow> (string \<times> rat list) list" where
  "get_class_stats score y_true y_pred labels =
     (case score y_true y_pred labels of
        (precision, recall, f_beta, support) \<Rightarrow>
          [(''precision'', precision), (''recall'', recall), (''f_beta'', f_beta),
           (''support'', support)])"

text \<open>
  \<^verbatim>\<open>ModelEvaluation._get_overall_stats\<close>, with the external \<^verbatim>\<open>f1_score\<close> as the parameter
  \<open>f1\<close>, which takes the averaging mode as its last argument.
\<close>

definition get_overall_stats ::
  "(nat list \<Rightarrow> nat list \<Rightarrow> nat list \<Rightarrow> string \<Rightarrow> rat) \<Rightarrow> ('e, 'l) EvaluatedExample list \<Rightarrow>
   nat list \<Rightarrow> nat list \<Rightarrow> nat list \<Rightarrow> error + (string \<times> rat) list" where
  "get_overall_stats f1 results y_true y_pred labels =
     (let f1_weighted = f1 y_true y_pred labels ''weighted'';
          f1_macro = f1 y_true y_pred labels ''macro'';
          f1_micro = f1 y_true y_pred labels ''micro''
      in case get_accuracy results of
           Inl e \<Rightarrow> Inl e
         | Inr accuracy \<Rightarrow>
             Inr [(''f1_weighted'', f1_weighted), (''f1_macro'', f1_macro),
                  (''f1_micro'', f1_micro), (''accuracy'', accuracy)])"

text \<open>
  \<^verbatim>\<open>ModelEvaluation._get_common_stats\<close>. The labels passed on are
  \<^verbatim>\<open>range(len(text_labels)-1)\<close>.
\<close>

definition get_common_stats ::
  "scorer \<Rightarrow> (nat list \<Rightarrow> nat list \<Rightarrow> nat list \<Rightarrow> string \<Rightarrow> rat) \<Rightarrow>
   ('e, 'l) EvaluatedExample list \<Rightarrow> nat list \<Rightarrow> nat list \<Rightarrow> 'l list \<Rightarrow> error + common_stats" where
  "get_common_stats score f1 results raw_expected raw_predicted tls =
     (let labels = [0..<length tls - 1] in
      case get_confusion_matrix_and_counts raw_expected raw_predicted of
        Inl e \<Rightarrow> Inl e
      | Inr cstats \<Rightarrow>
          (case get_overall_stats f1 results raw_expected raw_predicted labels of
             Inl e \<Rightarrow> Inl e
           | Inr overall \<Rightarrow>
               (let co = counts_overall cstats;
                    overall' = overall @ [(''TP'', of_nat (TP co)), (''TN'', of_nat (TN co)),
                                          (''FP'', of_nat (FP co)), (''FN'', of_nat (FN co))];
                    by_class = get_class_stats score raw_expected raw_predicted labels;
                    cc = counts_by_class cstats;
                    by_class' = by_class @ [(''TP'', map of_nat (TP cc)), (''TN'', map of_nat (TN cc)),
                                            (''FP'', map of_nat (FP cc)), (''FN'', map of_nat (FN cc))]
                in Inr \<lparr> stats_overall = overall', class_stats = by_class',
                         confusion_matrix_of = confusion_mat cstats \<rparr>)))"

text \<open>\<^verbatim>\<open>ModelEvaluation._truncate_label\<close>\<close>

definition truncate_label :: "string \<Rightarrow> nat \<Rightarrow> string" where
  "truncate_label label max_len =
     (if length label > max_len then take max_len label @ ''..'' else label)"

text \<open>\<^verbatim>\<open>[stats[stat][label] for stat in table_titles]\<close>\<close>

fun stat_row :: "(string \<times> rat list) list \<Rightarrow> string list \<Rightarrow> nat \<Rightarrow> error + rat list" where
  "stat_row stats [] label = Inr []"
| "stat_row stats (stat # titles) label =
     (case map_of stats stat of
        None \<Rightarrow> Inl (KeyError stat)
      | Some vec \<Rightarrow>
          if label < length vec
          then (case stat_row stats titles label of
                  Inl e \<Rightarrow> Inl e
                | Inr row \<Rightarrow> Inr (vec ! label # row))
          else Inl IndexError)"

text \<open>The loop over \<^verbatim>\<open>range(len(text_labels)-1)\<close> that prints one row per label.\<close>

fun print_rows ::
  "(string \<times> rat list) list \<Rightarrow> string list \<Rightarrow> string list \<Rightarrow> nat list \<Rightarrow>
   error + (string \<times> rat list) list" where
  "print_rows stats titles tls [] = Inr []"
| "print_rows stats titles tls (label # rest) =
     (case stat_row stats titles label of
        Inl e \<Rightarrow> Inl e
      | Inr row \<Rightarrow>
          (case print_rows stats titles tls rest of
             Inl e \<Rightarrow> Inl e
           | Inr printed \<Rightarrow> Inr ((truncate_label (tls ! label) 18, row) # printed)))"

text \<open>
  \<^verbatim>\<open>ModelEvaluation._print_class_stats_table\<close>: the rows that are printed under the title
  line, each the truncated text label and the values of the row.
\<close>

definition print_class_stats_table ::
  "(string \<times> rat list) list \<Rightarrow> string list \<Rightarrow> error + (string \<times> rat list) list" where
  "print_class_stats_table stats tls =
     (let common = [''f_beta'', ''precision'', ''recall'', ''support'',
                    ''TP'', ''TN'', ''FP'', ''FN''];
          table_titles = common @ filter (\<lambda>stat. stat \<notin> set common) (map fst stats)
      in print_rows stats table_titles tls [0..<length tls - 1])"

section \<open>Shuffling the training data\<close>

text \<open>\<^verbatim>\<open>[xs[i] for i in indices]\<close>, for indices that are not negative.\<close>

fun gather :: "'a list \<Rightarrow> nat list \<Rightarrow> error + 'a list" where
  "gather xs [] = Inr []"
| "gather xs (i # rest) =
     (if i < length xs
      then (case gather xs rest of Inl e \<Rightarrow> Inl e | Inr ys \<Rightarrow> Inr (xs ! i # ys))
      else Inl IndexError)"

text \<open>
  The shuffling step at the start of \<^verbatim>\<open>SkLearnModel.fit\<close>. \<open>indices\<close> is the list
  \<^verbatim>\<open>list(range(len(labels)))\<close> after \<^verbatim>\<open>random.shuffle\<close>.
\<close>

definition shuffle_examples_labels ::
  "nat list \<Rightarrow> 'e list \<Rightarrow> 'l list \<Rightarrow> error + ('e list \<times> 'l list)" where
  "shuffle_examples_labels indices examples labels =
     (case gather examples indices of
        Inl e \<Rightarrow> Inl e
      | Inr examples' \<Rightarrow>
          (case gather labels indices of
             Inl e \<Rightarrow> Inl e
           | Inr labels' \<Rightarrow> Inr (examples', labels')))"

section \<open>Class probabilities\<close>

text \<open>
  \<^verbatim>\<open>self._class_encoder.inverse_transform([class_index])[0]\<close>: the class encoder holds the
  list of the classes seen when fitting; an index outside it is rejected.
\<close>

definition inverse_transform :: "'c list \<Rightarrow> nat \<Rightarrow> error + 'c" where
  "inverse_transform classes class_index =
     (if class_index < length classes then Inr (classes ! class_index)
      else Inl (ValueError ''y contains previously unseen labels''))"

text \<open>
  \<^verbatim>\<open>probabilities.get(top_class, -1.0)\<close>, where \<^verbatim>\<open>top_class\<close> (here \<open>topc\<close>) is
  \<^verbatim>\<open>None\<close> until a class has been chosen, and \<^verbatim>\<open>None\<close> is not a key of the dictionary.
\<close>

definition get_proba :: "('c \<rightharpoonup> rat) \<Rightarrow> 'c option \<Rightarrow> rat \<Rightarrow> rat" where
  "get_proba probabilities topc dflt =
     (case topc of
        None \<Rightarrow> dflt
      | Some c \<Rightarrow> (case probabilities c of None \<Rightarrow> dflt | Some p \<Rightarrow> p))"

text \<open>
  The inner loop of \<^verbatim>\<open>SkLearnModel._predict_proba\<close> over \<^verbatim>\<open>enumerate(row)\<close>, with the
  decoding of the base \<open>LabelEncoder\<close>.
\<close>

fun predict_row_loop ::
  "'c list \<Rightarrow> (nat \<times> rat) list \<Rightarrow> 'c option \<times> ('c \<rightharpoonup> rat) \<Rightarrow>
   error + ('c option \<times> ('c \<rightharpoonup> rat))" where
  "predict_row_loop classes [] acc = Inr acc"
| "predict_row_loop classes ((class_index, proba) # rest) (topc, probabilities) =
     (case inverse_transform classes class_index of
        Inl e \<Rightarrow> Inl e
      | Inr raw_class \<Rightarrow>
          (case decode [raw_class] () of
             [] \<Rightarrow> Inl IndexError
           | decoded_class # _ \<Rightarrow>
               (let probabilities' = probabilities(decoded_class \<mapsto> proba);
                    topc' = (if proba > get_proba probabilities' topc (- 1)
                                  then Some decoded_class else topc)
                in predict_row_loop classes rest (topc', probabilities'))))"

text \<open>
  One row: \<^verbatim>\<open>row.argmax()\<close> raises on an empty row; its value is overwritten by the
  loop variable.
\<close>

definition predict_row :: "'c list \<Rightarrow> rat list \<Rightarrow> error + ('c option \<times> ('c \<rightharpoonup> rat))" where
  "predict_row classes row =
     (if row = [] then Inl (ValueError ''attempt to get argmax of an empty sequence'')
      else predict_row_loop classes (zip [0..<length row] row) (None, Map.empty))"

text \<open>\<^verbatim>\<open>SkLearnModel._predict_proba\<close>, applied to the matrix that the predictor returns.\<close>

fun predict_proba_rows ::
  "'c list \<Rightarrow> rat list list \<Rightarrow> error + ('c option \<times> ('c \<rightharpoonup> rat)) list" where
  "predict_proba_rows classes [] = Inr []"
| "predict_proba_rows classes (row # rows) =
     (case predict_row classes row of
        Inl e \<Rightarrow> Inl e
      | Inr prediction \<Rightarrow>
          (case predict_proba_rows classes rows of
             Inl e \<Rightarrow> Inl e
           | Inr predictions \<Rightarrow> Inr (prediction # predictions)))"

text \<open>The update of one step of the loop, on the decoded class and its probability.\<close>

definition proba_step :: "'c option \<times> ('c \<rightharpoonup> rat) \<Rightarrow> 'c \<times> rat \<Rightarrow> 'c option \<times> ('c \<rightharpoonup> rat)" where
  "proba_step acc cp =
     (let probabilities' = (snd acc)(fst cp \<mapsto> snd cp)
      in (if snd cp > get_proba probabilities' (fst acc) (- 1) then Some (fst cp) else fst acc,
          probabilities'))"

section \<open>Fitting a model\<close>

text \<open>
  The collaborators of \<^verbatim>\<open>SkLearnModel.fit\<close> that are outside the module:
  \<^item> \<open>shuffle\<close>: the outcome of \<^verbatim>\<open>random.shuffle\<close> on the list of indices;
  \<^item> \<open>preprocess\<close>: feature extraction and \<^verbatim>\<open>_preprocess_data\<close> with \<^verbatim>\<open>fit=True\<close>;
  \<^item> \<open>fit_classifier\<close>: \<^verbatim>\<open>_fit\<close>, that is \<^verbatim>\<open>_convert_params\<close>, the model constructor and
    the classifier's own \<^verbatim>\<open>fit\<close>;
  \<^item> \<open>grid_search\<close>: \<^verbatim>\<open>_convert_params\<close> on the grid, the model constructor and
    \<^verbatim>\<open>GridSearchCV(...).fit\<close>, giving the best estimator, the best params and the best
    score.
\<close>

record ('e, 'l, 'x, 'y, 'c) collaborators =
  shuffle :: "nat list \<Rightarrow> nat list"
  preprocess :: "'e list \<Rightarrow> 'l list \<Rightarrow> error + ('x \<times> 'y)"
  fit_classifier :: "'x \<Rightarrow> 'y \<Rightarrow> pydict option \<Rightarrow> error + 'c"
  grid_search :: "cv_iterator \<Rightarrow> pyval \<Rightarrow> pyval \<Rightarrow> pyval \<Rightarrow> 'x \<Rightarrow> 'y \<Rightarrow> nat list \<Rightarrow>
                  error + ('c \<times> pydict \<times> rat)"

record 'c SkLearnModel =
  config :: ModelConfig
  clf :: "'c option"
  current_params :: "pydict option"
  cv_loss :: "rat option"

text \<open>\<^verbatim>\<open>SkLearnModel.get_feature_matrix\<close> with \<^verbatim>\<open>fit=True\<close>: the groups are the positions.\<close>

definition get_feature_matrix ::
  "('e, 'l, 'x, 'y, 'c) collaborators \<Rightarrow> 'e list \<Rightarrow> 'l list \<Rightarrow> error + ('x \<times> 'y \<times> nat list)" where
  "get_feature_matrix env examples y =
     (case preprocess env examples y of
        Inl e \<Rightarrow> Inl e
      | Inr (X, y') \<Rightarrow> Inr (X, y', [0..<length examples]))"

text \<open>
  \<^verbatim>\<open>SkLearnModel._fit_cv\<close>. The result is the model with \<^verbatim>\<open>cv_loss_\<close> updated, the best
  estimator and the best params. A scoring other than \<^verbatim>\<open>'accuracy'\<close> and \<^verbatim>\<open>'log_loss'\<close>
  leaves \<^verbatim>\<open>msg\<close> unbound when it is formatted. The number of splits and the scores of
  the candidates are computed for the log only and are left out.
\<close>

definition fit_cv ::
  "('e, 'l, 'x, 'y, 'c) collaborators \<Rightarrow> 'c SkLearnModel \<Rightarrow> 'x \<Rightarrow> 'y \<Rightarrow> nat list \<Rightarrow>
   pydict option \<Rightarrow> error + ('c SkLearnModel \<times> 'c \<times> pydict option)" where
  "fit_cv env self X y groups selection_settings0 =
     (let selection_settings = py_or selection_settings0 (param_selection (config self)) in
      case get_cv_iterator selection_settings of
        Inl e \<Rightarrow> Inl e
      | Inr cv_iterator \<Rightarrow>
          (case selection_settings of
             None \<Rightarrow>
               (case fit_classifier env X y (params (config self)) of
                  Inl e \<Rightarrow> Inl e
                | Inr c \<Rightarrow> Inr (self, c, params (config self)))
           | Some sel \<Rightarrow>
               (case getitem sel ''type'' of
                  Inl e \<Rightarrow> Inl e
                | Inr cv_type \<Rightarrow>
                    (case cv_iterator of
                       None \<Rightarrow> Inl AttributeError
                     | Some cv \<Rightarrow>
                         (let scoring = dict_get sel ''scoring'' (PyStr ''accuracy'');
                              n_jobs = dict_get sel ''n_jobs'' (PyInt (- 1))
                          in case getitem sel ''grid'' of
                               Inl e \<Rightarrow> Inl e
                             | Inr grid \<Rightarrow>
                                 (case grid_search env cv scoring n_jobs grid X y groups of
                                    Inl e \<Rightarrow> Inl e
                                  | Inr (best_estimator, best_params, best_score) \<Rightarrow>
                                      if scoring = PyStr ''accuracy''
                                      then Inr (self\<lparr>cv_loss := Some (1 - best_score)\<rparr>,
                                                best_estimator, Some best_params)
                                      else if scoring = PyStr ''log_loss''
                                      then Inr (self\<lparr>cv_loss := Some (- best_score)\<rparr>,
                                                best_estimator, Some best_params)
                                      else Inl UnboundLocalError))))))"

text \<open>\<^verbatim>\<open>SkLearnModel.fit\<close>\<close>

definition fit ::
  "('e, 'l, 'x, 'y, 'c) collaborators \<Rightarrow> 'c SkLearnModel \<Rightarrow> 'e list \<Rightarrow> 'l list \<Rightarrow>
   pydict option \<Rightarrow> error + 'c SkLearnModel" where
  "fit env self examples labels params0 =
     (let skip_param_selection = (params0 \<noteq> None \<or> param_selection (config self) = None);
          params1 = py_or params0 (params (config self));
          indices = shuffle env [0..<length labels]
      in case shuffle_examples_labels indices examples labels of
           Inl e \<Rightarrow> Inl e
         | Inr (examples', labels') \<Rightarrow>
             (case get_feature_matrix env examples' (encode labels' ()) of
                Inl e \<Rightarrow> Inl e
              | Inr (X, y, groups) \<Rightarrow>
                  if skip_param_selection
                  then (case fit_classifier env X y params1 of
                          Inl e \<Rightarrow> Inl e
                        | Inr c \<Rightarrow> Inr (self\<lparr>clf := Some c, current_params := params1\<rparr>))
                  else (case fit_cv env self X y groups None of
                          Inl e \<Rightarrow> Inl e
                        | Inr (self', best_clf, best_params) \<Rightarrow>
                            Inr (self'\<lparr>clf := Some best_clf, current_params := best_params\<rparr>))))"

text \<open>
  The statements of \<^verbatim>\<open>SkLearnModel.fit\<close> that follow the shuffling step, as a function of
  the shuffled lists and of the two values computed before it: encoding the labels,
  building the feature matrix, and fitting in one of the two branches.
\<close>

definition fit_shuffled ::
  "('e, 'l, 'x, 'y, 'c) collaborators \<Rightarrow> 'c SkLearnModel \<Rightarrow> 'e list \<Rightarrow> 'l list \<Rightarrow>
   bool \<Rightarrow> pydict option \<Rightarrow> error + 'c SkLearnModel" where
  "fit_shuffled env self examples' labels' skip_param_selection params1 =
     (case get_feature_matrix env examples' (encode labels' ()) of
        Inl e \<Rightarrow> Inl e
      | Inr (X, y, groups) \<Rightarrow>
          if skip_param_selection
          then (case fit_classifier env X y params1 of
                  Inl e \<Rightarrow> Inl e
                | Inr c \<Rightarrow> Inr (self\<lparr>clf := Some c, current_params := params1\<rparr>))
          else (case fit_cv env self X y groups None of
                  Inl e \<Rightarrow> Inl e
                | Inr (self', best_clf, best_params) \<Rightarrow>
                    Inr (self'\<lparr>clf := Some best_clf, current_params := best_params\<rparr>)))"

text \<open>
  Collaborators for running \<open>fit\<close> on concrete data: the shuffle reverses the indices,
  preprocessing passes the data through, and a fitted classifier records how it was
  obtained.
\<close>

datatype recorded_clf = Fitted "pydict option" | Searched cv_iterator pyval

definition recording_collaborators ::
  "(string, string, string list, string list, recorded_clf) collaborators" where
  "recording_collaborators =
     \<lparr> shuffle = rev,
       preprocess = (\<lambda>examples y. Inr (examples, y)),
       fit_classifier = (\<lambda>X y ps. Inr (Fitted ps)),
       grid_search = (\<lambda>cv scoring n_jobs grid X y groups.
                        Inr (Searched cv grid, [(''C'', PyInt 10)], 9 / 10)) \<rparr>"

definition svm_config :: "pydict option \<Rightarrow> pydict option \<Rightarrow> ModelConfig" where
  "svm_config ps psel =
     \<lparr> model_type = ''svm'', example_type = ''query'', label_type = ''class'',
       features = [(''bag-of-words'', PyDict [])], model_settings = None,
       params = ps, param_selection = psel \<rparr>"

text \<open>\<^verbatim>\<open>Model.__init__\<close>: no classifier, no current params and no loss yet.\<close>

definition new_model :: "ModelConfig \<Rightarrow> recorded_clf SkLearnModel" where
  "new_model cfg = \<lparr> config = cfg, clf = None, current_params = None, cv_loss = None \<rparr>"

section \<open>Label encoder round trip\<close>

text \<open>
  C7. The label type \<^verbatim>\<open>'class'\<close> is registered with the base class \<open>LabelEncoder\<close>, whose
  \<open>encode\<close> and \<open>decode\<close> both return their argument unchanged, so decoding an encoded
  list of labels gives the list back.
\<close>

theorem class_encoder_round_trip:
  "map_of registered_labels ''class'' = Some LabelEncoder
   \<and> encode labels kw = labels \<and> decode labels kw' = labels
   \<and> decode (encode labels kw) kw' = labels"
  by (simp add: registered_labels_def encode_def decode_def)

section \<open>Construction of a model configuration\<close>

text \<open>
  C8, as stated, fails: a \<open>param_selection\<close> that has a \<^verbatim>\<open>'grid'\<close> entry whose value is
  \<^verbatim>\<open>None\<close> is rejected with \<^verbatim>\<open>ValueError\<close> when \<open>params\<close> is \<^verbatim>\<open>None\<close>, although the
  dictionary is not \<^verbatim>\<open>None\<close> and does not lack the entry.
\<close>

theorem ModelConfig_init_grid_none_counterexample:
  "is_ValueError (ModelConfig_init (Some ''svm'') (Some ''query'') (Some ''class'') (Some [])
      None None (Some [(''grid'', PyNone)]))
   \<and> map_of [(''grid'', PyNone)] ''grid'' \<noteq> None"
  by (simp add: ModelConfig_init_def is_ValueError_def dict_get_def)

text \<open>
  C8, amended. \<open>ModelConfig_init\<close> raises \<^verbatim>\<open>TypeError\<close> exactly when one of
  \<open>model_type\<close>, \<open>example_type\<close>, \<open>label_type\<close>, \<open>features\<close> is \<^verbatim>\<open>None\<close>. When none of
  them is, it raises \<^verbatim>\<open>ValueError\<close> exactly when \<open>params\<close> is \<^verbatim>\<open>None\<close> and
  \<open>param_selection\<close> is \<^verbatim>\<open>None\<close> or has no \<^verbatim>\<open>'grid'\<close> entry or has one whose value is
  \<^verbatim>\<open>None\<close>; otherwise it returns the configuration whose seven slots are the seven
  arguments.
\<close>

theorem ModelConfig_init_errors:
  "(is_TypeError (ModelConfig_init mt et lt fs ms ps psel)
      \<longleftrightarrow> mt = None \<or> et = None \<or> lt = None \<or> fs = None)
   \<and> (is_ValueError (ModelConfig_init (Some m) (Some e) (Some l) (Some f) ms ps psel)
      \<longleftrightarrow> ps = None \<and> (psel = None
            \<or> (\<exists>sel. psel = Some sel
                  \<and> (map_of sel ''grid'' = None \<or> map_of sel ''grid'' = Some PyNone))))
   \<and> (\<not> is_ValueError (ModelConfig_init (Some m) (Some e) (Some l) (Some f) ms ps psel)
      \<longrightarrow> ModelConfig_init (Some m) (Some e) (Some l) (Some f) ms ps psel
           = Inr \<lparr> model_type = m, example_type = e, label_type = l, features = f,
                   model_settings = ms, params = ps, param_selection = psel \<rparr>)"
  by (auto simp: ModelConfig_init_def is_TypeError_def is_ValueError_def dict_get_def
           split: option.splits)

theorem ModelConfig_init_errors_witness:
  "\<not> is_ValueError (ModelConfig_init (Some ''svm'') (Some ''query'') (Some ''class'')
        (Some [(''bag-of-words'', PyDict [])]) None (Some [(''C'', PyInt 1)]) None)
   \<and> ModelConfig_init (Some ''svm'') (Some ''query'') (Some ''class'')
        (Some [(''bag-of-words'', PyDict [])]) None (Some [(''C'', PyInt 1)]) None
      = Inr \<lparr> model_type = ''svm'', example_type = ''query'', label_type = ''class'',
              features = [(''bag-of-words'', PyDict [])], model_settings = None,
              params = Some [(''C'', PyInt 1)], param_selection = None \<rparr>
   \<and> is_TypeError (ModelConfig_init None (Some ''query'') (Some ''class'')
        (Some [(''bag-of-words'', PyDict [])]) None (Some [(''C'', PyInt 1)]) None)"
  using ModelConfig_init_errors [of "None" "Some ''query''" "Some ''class''"
          "Some [(''bag-of-words'', PyDict [])]" None "Some [(''C'', PyInt 1)]" None
          "''svm''" "''query''" "''class''" "[(''bag-of-words'', PyDict [])]"]
  by (simp add: is_ValueError_def)

section \<open>Selection of the cross-validation iterator\<close>

text \<open>
  C10. For settings whose \<^verbatim>\<open>'type'\<close> is not one of the six supported names the table
  lookup gives \<^verbatim>\<open>None\<close>, and calling it raises \<^verbatim>\<open>TypeError\<close>, which the handler that
  would raise the \<^verbatim>\<open>ValueError\<close> does not catch. Evaluated at the settings
  \<^verbatim>\<open>{'type': 'leave-one-out', 'k': 3}\<close>.
\<close>

theorem get_cv_iterator_unknown_type:
  "get_cv_iterator (Some [(''type'', PyStr ''leave-one-out''), (''k'', PyInt 3)])
     = Inl (TypeError '''NoneType' object is not callable'')
   \<and> PyStr ''leave-one-out'' \<notin> set supported_cv_types"
  by (simp add: get_cv_iterator_def getitem_def cv_dispatch_def supported_cv_types_def)

text \<open>The same for every unsupported type: the result is never the \<^verbatim>\<open>ValueError\<close>.\<close>

lemma get_cv_iterator_unsupported:
  assumes "settings \<noteq> []" and "map_of settings ''type'' = Some t"
    and "t \<notin> set supported_cv_types"
  shows "get_cv_iterator (Some settings) = Inl (TypeError '''NoneType' object is not callable'')"
  using assms
  by (simp add: get_cv_iterator_def getitem_def cv_dispatch_def supported_cv_types_def)

text \<open>
  C5. \<open>get_cv_iterator\<close> returns \<^verbatim>\<open>None\<close> for the falsy settings \<^verbatim>\<open>None\<close> and \<^verbatim>\<open>{}\<close>.
  For non-empty settings that hold \<^verbatim>\<open>'k'\<close>, the types \<^verbatim>\<open>'k-fold'\<close>, \<^verbatim>\<open>'group-k-fold'\<close>
  and \<^verbatim>\<open>'stratified-k-fold'\<close> give the corresponding splitter built with \<open>k\<close> splits;
  when \<open>k\<close> is a non-zero integer, the types \<^verbatim>\<open>'shuffle'\<close>, \<^verbatim>\<open>'group-shuffle'\<close> and
  \<^verbatim>\<open>'stratified-shuffle'\<close> give the corresponding splitter built with \<open>n\<close> splits, where
  \<open>n\<close> is the \<^verbatim>\<open>'n'\<close> entry or \<open>k\<close> when there is none, and test fraction \<open>1 / k\<close>.
\<close>

theorem get_cv_iterator_supported:
  "get_cv_iterator None = Inr None \<and> get_cv_iterator (Some []) = Inr None
   \<and> (settings \<noteq> [] \<and> map_of settings ''k'' = Some k \<longrightarrow>
        (map_of settings ''type'' = Some (PyStr ''k-fold'')
           \<longrightarrow> get_cv_iterator (Some settings) = Inr (Some (KFold k)))
      \<and> (map_of settings ''type'' = Some (PyStr ''group-k-fold'')
           \<longrightarrow> get_cv_iterator (Some settings) = Inr (Some (GroupKFold k)))
      \<and> (map_of settings ''type'' = Some (PyStr ''stratified-k-fold'')
           \<longrightarrow> get_cv_iterator (Some settings) = Inr (Some (StratifiedKFold k))))
   \<and> (settings \<noteq> [] \<and> map_of settings ''k'' = Some (PyInt i) \<and> i \<noteq> 0
        \<and> n = (case map_of settings ''n'' of None \<Rightarrow> PyInt i | Some v \<Rightarrow> v) \<longrightarrow>
        (map_of settings ''type'' = Some (PyStr ''shuffle'')
           \<longrightarrow> get_cv_iterator (Some settings) = Inr (Some (ShuffleSplit n (1 / of_int i))))
      \<and> (map_of settings ''type'' = Some (PyStr ''group-shuffle'')
           \<longrightarrow> get_cv_iterator (Some settings) = Inr (Some (GroupShuffleSplit n (1 / of_int i))))
      \<and> (map_of settings ''type'' = Some (PyStr ''stratified-shuffle'')
           \<longrightarrow> get_cv_iterator (Some settings)
                 = Inr (Some (StratifiedShuffleSplit n (1 / of_int i)))))"
  by (simp add: get_cv_iterator_def getitem_def dict_get_def cv_dispatch_def
        k_fold_iterator_def groups_k_fold_iterator_def stratified_k_fold_iterator_def
        shuffle_iterator_def groups_shuffle_iterator_def stratified_shuffle_iterator_def)

theorem get_cv_iterator_supported_witness:
  "get_cv_iterator (Some [(''type'', PyStr ''k-fold''), (''k'', PyInt 5)])
     = Inr (Some (KFold (PyInt 5)))
   \<and> get_cv_iterator (Some [(''type'', PyStr ''stratified-shuffle''), (''k'', PyInt 4)])
     = Inr (Some (StratifiedShuffleSplit (PyInt 4) (1 / 4)))
   \<and> get_cv_iterator (Some [(''type'', PyStr ''shuffle''), (''k'', PyInt 10), (''n'', PyInt 3)])
     = Inr (Some (ShuffleSplit (PyInt 3) (1 / 10)))"
  using get_cv_iterator_supported [of "[(''type'', PyStr ''k-fold''), (''k'', PyInt 5)]"
          "PyInt 5" 5 "PyInt 5"]
        get_cv_iterator_supported [of "[(''type'', PyStr ''stratified-shuffle''), (''k'', PyInt 4)]"
          "PyInt 4" 4 "PyInt 4"]
        get_cv_iterator_supported [of
          "[(''type'', PyStr ''shuffle''), (''k'', PyInt 10), (''n'', PyInt 3)]"
          "PyInt 10" 10 "PyInt 3"]
  by simp

section \<open>The shuffle keeps examples and labels paired\<close>

lemma gather_valid:
  "\<forall>i\<in>set indices. i < length xs \<Longrightarrow> gather xs indices = Inr (map ((!) xs) indices)"
  by (induction indices) auto

lemma mset_map_nth_perm:
  assumes "mset indices = mset [0..<length xs]"
  shows "mset (map ((!) xs) indices) = mset xs"
proof -
  have "mset (map ((!) xs) indices) = image_mset ((!) xs) (mset indices)" by simp
  also have "\<dots> = image_mset ((!) xs) (mset [0..<length xs])" using assms by simp
  also have "\<dots> = mset (map ((!) xs) [0..<length xs])" by simp
  also have "\<dots> = mset xs" by (simp add: map_nth)
  finally show ?thesis .
qed

lemma zip_map_nth:
  "\<forall>i\<in>set indices. i < length xs \<and> i < length ys \<Longrightarrow>
   zip (map ((!) xs) indices) (map ((!) ys) indices) = map ((!) (zip xs ys)) indices"
  by (induction indices) auto

text \<open>
  Gathering both lists at the same rearrangement of the positions keeps the pairs.
\<close>

lemma shuffle_examples_labels_perm:
  assumes "length examples = length labels"
    and "mset indices = mset [0..<length labels]"
  shows "\<exists>examples' labels'.
           shuffle_examples_labels indices examples labels = Inr (examples', labels')
           \<and> length examples' = length labels'
           \<and> mset (zip examples' labels') = mset (zip examples labels)"
proof -
  have valid: "\<forall>i\<in>set indices. i < length labels"
    using assms(2) by (metis atLeastLessThan_iff set_mset_mset set_upt)
  have ex: "gather examples indices = Inr (map ((!) examples) indices)"
    using valid assms(1) by (simp add: gather_valid)
  have lab: "gather labels indices = Inr (map ((!) labels) indices)"
    using valid by (simp add: gather_valid)
  have "zip (map ((!) examples) indices) (map ((!) labels) indices)
          = map ((!) (zip examples labels)) indices"
    using valid assms(1) by (intro zip_map_nth) simp
  moreover have "mset (map ((!) (zip examples labels)) indices) = mset (zip examples labels)"
    using assms by (intro mset_map_nth_perm) simp
  ultimately show ?thesis
    by (simp add: shuffle_examples_labels_def ex lab)
qed

text \<open>What \<open>fit\<close> does with the lists once they are shuffled.\<close>

lemma fit_after_shuffle:
  "fit env self examples labels explicit_params =
     (case shuffle_examples_labels (shuffle env [0..<length labels]) examples labels of
        Inl e \<Rightarrow> Inl e
      | Inr (examples', labels') \<Rightarrow>
          fit_shuffled env self examples' labels'
            (explicit_params \<noteq> None \<or> param_selection (config self) = None)
            (py_or explicit_params (params (config self))))"
  by (simp add: fit_def fit_shuffled_def Let_def split: sum.splits prod.splits)

text \<open>
  C6. The shuffling step of \<open>fit\<close> builds the indices \<open>0, \<dots>, length labels - 1\<close>,
  has them shuffled, and gathers examples and labels at the shuffled indices. Given only
  that \<^verbatim>\<open>random.shuffle\<close> rearranges the list it is given, for examples and labels of
  equal length the step succeeds, the list of pairs of shuffled examples and shuffled
  labels is a permutation of the original list of pairs (each example keeps its label,
  and no pair is added or lost), and these shuffled lists are the ones that the rest of
  \<open>fit\<close> encodes, turns into features and fits on.
\<close>

theorem fit_shuffle_keeps_pairs:
  assumes "length examples = length labels"
    and "\<forall>xs. mset (shuffle env xs) = mset xs"
  shows "\<exists>examples' labels'.
           shuffle_examples_labels (shuffle env [0..<length labels]) examples labels
             = Inr (examples', labels')
         \<and> length examples' = length labels'
         \<and> mset (zip examples' labels') = mset (zip examples labels)
         \<and> fit env self examples labels explicit_params
             = fit_shuffled env self examples' labels'
                 (explicit_params \<noteq> None \<or> param_selection (config self) = None)
                 (py_or explicit_params (params (config self)))"
proof -
  have perm: "mset (shuffle env [0..<length labels]) = mset [0..<length labels]"
    using assms(2) by blast
  from shuffle_examples_labels_perm [OF assms(1) perm]
  obtain examples' labels' where s:
    "shuffle_examples_labels (shuffle env [0..<length labels]) examples labels
       = Inr (examples', labels')"
    "length examples' = length labels'"
    "mset (zip examples' labels') = mset (zip examples labels)" by blast
  have "fit env self examples labels explicit_params
          = fit_shuffled env self examples' labels'
              (explicit_params \<noteq> None \<or> param_selection (config self) = None)
              (py_or explicit_params (params (config self)))"
    by (simp add: fit_after_shuffle s(1))
  then show ?thesis using s by blast
qed

theorem fit_shuffle_keeps_pairs_witness:
  "shuffle_examples_labels (shuffle recording_collaborators [0..<length [''music'', ''alarm'', ''exit'']])
       [''play jazz'', ''wake me'', ''stop''] [''music'', ''alarm'', ''exit'']
     = Inr ([''stop'', ''wake me'', ''play jazz''], [''exit'', ''alarm'', ''music''])
   \<and> mset (zip [''stop'', ''wake me'', ''play jazz''] [''exit'', ''alarm'', ''music''])
     = mset (zip [''play jazz'', ''wake me'', ''stop''] [''music'', ''alarm'', ''exit''])
   \<and> fit recording_collaborators (new_model (svm_config (Some [(''C'', PyInt 1)]) None))
       [''play jazz'', ''wake me'', ''stop''] [''music'', ''alarm'', ''exit''] None
     = fit_shuffled recording_collaborators (new_model (svm_config (Some [(''C'', PyInt 1)]) None))
         [''stop'', ''wake me'', ''play jazz''] [''exit'', ''alarm'', ''music'']
         True (Some [(''C'', PyInt 1)])"
proof -
  have len: "length [''play jazz'', ''wake me'', ''stop''] = length [''music'', ''alarm'', ''exit'']"
    by simp
  have contract: "\<forall>xs. mset (shuffle recording_collaborators xs) = mset xs"
    by (simp add: recording_collaborators_def)
  from fit_shuffle_keeps_pairs [OF len contract,
         of "new_model (svm_config (Some [(''C'', PyInt 1)]) None)" None]
  show ?thesis
    by (simp add: shuffle_examples_labels_def recording_collaborators_def upt_rec
          new_model_def svm_config_def py_or_def)
qed

section \<open>Raw results decode back to the labels\<close>

lemma list_index_Some:
  "x \<in> set xs \<Longrightarrow> \<exists>i. list_index xs x = Some i \<and> i < length xs \<and> xs ! i = x"
  by (induction xs) auto

lemma decodes_append: "decodes tls vec labels \<Longrightarrow> decodes (tls @ extra) vec labels"
  by (auto simp: decodes_def nth_append)

lemma update_raw_result_ok:
  assumes "distinct tls" and "decodes tls vec labels"
  shows "\<exists>tls' i. update_raw_result label tls vec = Inr (tls', vec @ [i])
           \<and> distinct tls' \<and> (\<exists>extra. tls' = tls @ extra)
           \<and> decodes tls' (vec @ [i]) (labels @ [label])"
proof -
  define tls' where "tls' = (if label \<notin> set tls then tls @ [label] else tls)"
  have mem: "label \<in> set tls'" and dist: "distinct tls'" and ext: "\<exists>extra. tls' = tls @ extra"
    using assms(1) by (auto simp: tls'_def)
  from list_index_Some [OF mem] obtain i
    where i: "list_index tls' label = Some i" "i < length tls'" "tls' ! i = label" by blast
  have "decodes tls' vec labels"
    using ext assms(2) decodes_append by blast
  then have "decodes tls' (vec @ [i]) (labels @ [label])"
    using i by (auto simp: decodes_def nth_append less_Suc_eq)
  moreover have "update_raw_result label tls vec = Inr (tls', vec @ [i])"
    using i(1) by (simp add: update_raw_result_def tls'_def [symmetric] Let_def)
  ultimately show ?thesis using dist ext by blast
qed

lemma raw_results_loop_ok:
  assumes "distinct tls" and "decodes tls pv pl" and "decodes tls ev el"
  shows "\<exists>tls' pv' ev'. raw_results_loop results (tls, pv, ev) = Inr (tls', pv', ev')
           \<and> distinct tls'
           \<and> decodes tls' pv' (pl @ map EvaluatedExample.predicted results)
           \<and> decodes tls' ev' (el @ map EvaluatedExample.expected results)"
  using assms
proof (induction results arbitrary: tls pv ev pl el)
  case Nil
  then show ?case by simp
next
  case (Cons r rest)
  from update_raw_result_ok [OF Cons.prems(1) Cons.prems(2), of "EvaluatedExample.predicted r"]
  obtain tls1 i where s1:
    "update_raw_result (EvaluatedExample.predicted r) tls pv = Inr (tls1, pv @ [i])"
    "distinct tls1" "\<exists>extra. tls1 = tls @ extra"
    "decodes tls1 (pv @ [i]) (pl @ [EvaluatedExample.predicted r])" by blast
  have e1: "decodes tls1 ev el"
    using s1(3) Cons.prems(3) decodes_append by blast
  from update_raw_result_ok [OF s1(2) e1, of "EvaluatedExample.expected r"]
  obtain tls2 j where s2:
    "update_raw_result (EvaluatedExample.expected r) tls1 ev = Inr (tls2, ev @ [j])"
    "distinct tls2" "\<exists>extra. tls2 = tls1 @ extra"
    "decodes tls2 (ev @ [j]) (el @ [EvaluatedExample.expected r])" by blast
  have p2: "decodes tls2 (pv @ [i]) (pl @ [EvaluatedExample.predicted r])"
    using s2(3) s1(4) decodes_append by blast
  from Cons.IH [OF s2(2) p2 s2(4)]
  show ?case using s1(1) s2(1) by simp
qed

text \<open>
  C9. For every list of results, \<open>raw_results\<close> returns, without raising, text labels
  without duplicates and two vectors with one entry per result, every entry a valid
  index into the text labels, at which the text label is the predicted, respectively
  the expected, label of that result.
\<close>

theorem raw_results_decode:
  "\<exists>rr. raw_results results = Inr rr
     \<and> distinct (text_labels rr)
     \<and> length (RawResults.predicted rr) = length results
     \<and> length (RawResults.expected rr) = length results
     \<and> (\<forall>i<length results.
           RawResults.predicted rr ! i < length (text_labels rr)
         \<and> RawResults.expected rr ! i < length (text_labels rr)
         \<and> text_labels rr ! (RawResults.predicted rr ! i)
             = EvaluatedExample.predicted (results ! i)
         \<and> text_labels rr ! (RawResults.expected rr ! i)
             = EvaluatedExample.expected (results ! i))"
proof -
  have "decodes [] [] []" by (simp add: decodes_def)
  from raw_results_loop_ok [OF _ this this, of results]
  obtain tls pv ev where r:
    "raw_results_loop results ([], [], []) = Inr (tls, pv, ev)" "distinct tls"
    "decodes tls pv (map EvaluatedExample.predicted results)"
    "decodes tls ev (map EvaluatedExample.expected results)" by auto
  show ?thesis
    using r by (simp add: raw_results_def decodes_def)
qed

theorem raw_results_decode_witness:
  "raw_results
     [\<lparr> example = ''play jazz'', expected = ''music'', predicted = ''alarm'', probas = [] \<rparr>,
      \<lparr> example = ''wake me'', expected = ''alarm'', predicted = ''alarm'', probas = [] \<rparr>]
   = Inr \<lparr> RawResults.predicted = [0, 0], RawResults.expected = [1, 0],
           text_labels = [''alarm'', ''music''] \<rparr>"
  using raw_results_decode [of
     "[\<lparr> example = ''play jazz'', expected = ''music'', predicted = ''alarm'', probas = [] \<rparr>,
       \<lparr> example = ''wake me'', expected = ''alarm'', predicted = ''alarm'', probas = [] \<rparr>]"]
  by (simp add: raw_results_def update_raw_result_def)

section \<open>The top class of a row of probabilities\<close>

lemma predict_row_loop_foldl:
  "k + length row \<le> length classes \<Longrightarrow>
   predict_row_loop classes (zip [k..<k + length row] row) acc
     = Inr (foldl proba_step acc (zip (drop k classes) row))"
proof (induction row arbitrary: k acc)
  case Nil
  then show ?case by simp
next
  case (Cons p row)
  obtain t m where acc: "acc = (t, m)" by (cases acc)
  have k: "k < length classes" using Cons.prems by simp
  have idx: "[k..<k + length (p # row)] = k # [Suc k..<Suc k + length row]"
    by (simp add: upt_rec)
  have dr: "drop k classes = classes ! k # drop (Suc k) classes"
    using k by (simp add: Cons_nth_drop_Suc)
  have "Suc k + length row \<le> length classes" using Cons.prems by simp
  from Cons.IH [OF this]
  show ?case
    unfolding idx dr acc
    by (simp add: inverse_transform_def decode_def proba_step_def k Let_def)
qed

lemma foldl_proba_step:
  assumes "distinct (map fst xs)" and "\<forall>cp\<in>set xs. - 1 < snd cp"
  shows "snd (foldl proba_step (None, Map.empty) xs) = map_of xs
         \<and> (case fst (foldl proba_step (None, Map.empty) xs) of
               None \<Rightarrow> xs = []
             | Some c \<Rightarrow> \<exists>p. (c, p) \<in> set xs \<and> (\<forall>cp\<in>set xs. snd cp \<le> p))"
  using assms
proof (induction xs rule: rev_induct)
  case Nil
  then show ?case by simp
next
  case (snoc x xs)
  obtain c p where x: "x = (c, p)" by (cases x)
  obtain t m where st: "foldl proba_step (None, Map.empty) xs = (t, m)"
    by (cases "foldl proba_step (None, Map.empty) xs")
  have fresh: "c \<notin> fst ` set xs" and dist: "distinct (map fst xs)"
    using snoc.prems(1) x by auto
  have gt: "- 1 < p" using snoc.prems(2) x by simp
  from snoc.IH dist snoc.prems(2) st
  have m: "m = map_of xs"
    and t: "case t of None \<Rightarrow> xs = []
            | Some c' \<Rightarrow> \<exists>p'. (c', p') \<in> set xs \<and> (\<forall>cp\<in>set xs. snd cp \<le> p')"
    by auto
  have none: "map_of xs c = None" using fresh by (simp add: map_of_eq_None_iff)
  have m': "map_of (xs @ [x]) = m(c \<mapsto> p)"
    unfolding m x by (rule ext) (auto simp: map_add_def none split: option.splits)
  show ?case
  proof (cases t)
    case None
    then have "xs = []" using t by simp
    then show ?thesis
      using st None gt x by (simp add: proba_step_def get_proba_def Let_def)
  next
    case (Some c')
    then obtain p' where p': "(c', p') \<in> set xs" "\<forall>cp\<in>set xs. snd cp \<le> p'"
      using t by auto
    have ne: "c' \<noteq> c" using p'(1) fresh by force
    have look: "m c' = Some p'" using p'(1) dist m by simp
    have step: "foldl proba_step (None, Map.empty) (xs @ [x])
                  = (if p > p' then Some c else Some c', m(c \<mapsto> p))"
      using st Some ne look x by (simp add: proba_step_def get_proba_def Let_def)
    show ?thesis
    proof (cases "p > p'")
      case True
      then show ?thesis
        unfolding step using m' p'(2) x by (auto intro!: exI [of _ p])
    next
      case False
      then show ?thesis
        unfolding step using m' p' x by (auto intro!: exI [of _ p'])
    qed
  qed
qed

text \<open>One row of probabilities and its prediction.\<close>

lemma predict_row_top:
  assumes "distinct classes" and "length row = length classes" and "row \<noteq> []"
    and "\<forall>p\<in>set row. 0 \<le> p"
  shows "\<exists>c probs. predict_row classes row = Inr (Some c, probs)
           \<and> dom probs = set classes
           \<and> (\<forall>j<length classes. probs (classes ! j) = Some (row ! j))
           \<and> probs c = Some (Max (set row))"
proof -
  let ?xs = "zip classes row"
  let ?r = "foldl proba_step (None, Map.empty) ?xs"
  have run: "predict_row classes row = Inr ?r"
    using predict_row_loop_foldl [of 0 row classes "(None, Map.empty)"] assms(2,3)
    by (simp add: predict_row_def)
  have d: "distinct (map fst ?xs)" using assms(1,2) by simp
  have g: "\<forall>cp\<in>set ?xs. - 1 < snd cp"
  proof
    fix cp assume "cp \<in> set ?xs"
    then have "snd cp \<in> set row" by (metis prod.collapse set_zip_rightD)
    then have "0 \<le> snd cp" using assms(4) by blast
    then show "- 1 < snd cp" by simp
  qed
  from foldl_proba_step [OF d g]
  have probs: "snd ?r = map_of ?xs"
    and top: "case fst ?r of None \<Rightarrow> ?xs = []
              | Some c \<Rightarrow> \<exists>p. (c, p) \<in> set ?xs \<and> (\<forall>cp\<in>set ?xs. snd cp \<le> p)"
    by auto
  have "?xs \<noteq> []" using assms(2,3) by (cases classes; cases row) auto
  then obtain c p where c: "fst ?r = Some c" "(c, p) \<in> set ?xs" "\<forall>cp\<in>set ?xs. snd cp \<le> p"
    using top by (cases "fst ?r") auto
  have pin: "p \<in> set row" using c(2) by (rule set_zip_rightD)
  have "\<forall>q\<in>set row. q \<le> p"
  proof
    fix q assume "q \<in> set row"
    then obtain j where j: "j < length row" "row ! j = q" by (auto simp: in_set_conv_nth)
    then have "(classes ! j, q) \<in> set ?xs"
      using assms(2) by (auto simp: set_zip)
    then show "q \<le> p" using c(3) by force
  qed
  then have mx: "Max (set row) = p"
    using pin by (intro Max_eqI) auto
  have lookc: "map_of ?xs c = Some p" using c(2) d by simp
  have dm: "dom (map_of ?xs) = set classes"
    using assms(2) by (simp add: dom_map_of_zip)
  have nth: "\<forall>j<length classes. map_of ?xs (classes ! j) = Some (row ! j)"
    using assms(1,2) by (simp add: map_of_zip_nth)
  have "?r = (Some c, map_of ?xs)"
    using c(1) probs by (metis prod.collapse)
  then show ?thesis
    using run dm nth lookc mx by auto
qed

text \<open>
  C3. The class encoder holds distinct classes, and the matrix has one column per class.
  For every such matrix of probabilities (every row non-empty, every entry between 0
  and 1), \<open>predict_proba_rows\<close> returns, without raising, one pair per row; the
  dictionary of the pair has the classes as its keys and maps each class to the entry of
  the row in its column, and the top class of the pair is a class whose probability is
  the maximum of the row.
\<close>

theorem predict_proba_top_class:
  assumes "distinct classes"
    and "\<forall>row\<in>set rows. length row = length classes \<and> row \<noteq> [] \<and> (\<forall>p\<in>set row. 0 \<le> p \<and> p \<le> 1)"
  shows "\<exists>predictions. predict_proba_rows classes rows = Inr predictions
           \<and> length predictions = length rows
           \<and> (\<forall>i<length rows. \<exists>c probs.
                 predictions ! i = (Some c, probs)
               \<and> dom probs = set classes
               \<and> (\<forall>j<length classes. probs (classes ! j) = Some (rows ! i ! j))
               \<and> probs c = Some (Max (set (rows ! i))))"
  using assms(2)
proof (induction rows)
  case Nil
  then show ?case by simp
next
  case (Cons row rows)
  from Cons.prems have "length row = length classes" "row \<noteq> []" "\<forall>p\<in>set row. 0 \<le> p"
    by auto
  from predict_row_top [OF assms(1) this]
  obtain c probs where hd: "predict_row classes row = Inr (Some c, probs)"
    "dom probs = set classes" "\<forall>j<length classes. probs (classes ! j) = Some (row ! j)"
    "probs c = Some (Max (set row))" by blast
  from Cons.IH Cons.prems
  obtain predictions where tl: "predict_proba_rows classes rows = Inr predictions"
    "length predictions = length rows"
    "\<forall>i<length rows. \<exists>c probs.
        predictions ! i = (Some c, probs) \<and> dom probs = set classes
      \<and> (\<forall>j<length classes. probs (classes ! j) = Some (rows ! i ! j))
      \<and> probs c = Some (Max (set (rows ! i)))" by auto
  have "\<forall>i<length (row # rows). \<exists>c' probs'.
        ((Some c, probs) # predictions) ! i = (Some c', probs') \<and> dom probs' = set classes
      \<and> (\<forall>j<length classes. probs' (classes ! j) = Some ((row # rows) ! i ! j))
      \<and> probs' c' = Some (Max (set ((row # rows) ! i)))"
  proof (intro allI impI)
    fix i assume i: "i < length (row # rows)"
    show "\<exists>c' probs'.
        ((Some c, probs) # predictions) ! i = (Some c', probs') \<and> dom probs' = set classes
      \<and> (\<forall>j<length classes. probs' (classes ! j) = Some ((row # rows) ! i ! j))
      \<and> probs' c' = Some (Max (set ((row # rows) ! i)))"
    proof (cases i)
      case 0
      then show ?thesis using hd(2,3,4) by auto
    next
      case (Suc k)
      then have "k < length rows" using i by simp
      then show ?thesis using tl(3) Suc by simp
    qed
  qed
  then show ?case using hd(1) tl(1,2) by simp
qed

theorem predict_proba_top_class_witness:
  "map_sum id (map fst)
     (predict_proba_rows [''alarm'', ''music'', ''weather'']
        [[1 / 5, 7 / 10, 1 / 10], [1 / 2, 1 / 4, 1 / 4]])
     = Inr [Some ''music'', Some ''alarm'']
   \<and> (case predict_proba_rows [''alarm'', ''music'', ''weather'']
              [[1 / 5, 7 / 10, 1 / 10], [1 / 2, 1 / 4, 1 / 4]] of
         Inl e \<Rightarrow> None
       | Inr predictions \<Rightarrow> snd (predictions ! 0) ''music'') = Some (7 / 10)"
proof -
  have d: "distinct [''alarm'', ''music'', ''weather'']" by simp
  have r: "\<forall>row\<in>set [[1 / 5, 7 / 10, 1 / 10], [1 / 2, 1 / 4, 1 / 4 :: rat]].
             length row = length [''alarm'', ''music'', ''weather''] \<and> row \<noteq> []
             \<and> (\<forall>p\<in>set row. 0 \<le> p \<and> p \<le> 1)"
    by simp
  from predict_proba_top_class [OF d r]
  show ?thesis
    by (simp add: predict_row_def upt_rec inverse_transform_def decode_def get_proba_def)
qed

text \<open>
  The bound on the entries matters: the comparison starts from \<open>- 1\<close>, so a row whose
  entries are all at most \<open>- 1\<close>, as logarithms of probabilities can be, gets no top class.
\<close>

lemma predict_row_below_default:
  "map_sum id fst (predict_row [''alarm'', ''music''] [- 2, - 3]) = Inr None"
  by (simp add: predict_row_def upt_rec inverse_transform_def decode_def get_proba_def)

section \<open>Counts derived from the confusion matrix\<close>

lemma square_nth: "square n C \<Longrightarrow> j < n \<Longrightarrow> length (C ! j) = n"
  by (simp add: square_def list_all_length)

lemma confusion_matrix_square:
  "confusion_matrix y_true y_pred = Inr C \<Longrightarrow> square (length C) C"
  by (auto simp: confusion_matrix_def square_def list_all_iff Let_def split: if_splits)

lemma sum_list_map2_times:
  "length xs = n \<Longrightarrow> length ys = n \<Longrightarrow> sum_list (map2 (*) xs ys) = (\<Sum>k<n. xs ! k * ys ! k)"
  by (auto simp: sum_list_sum_nth atLeast0LessThan intro!: sum.cong)

lemma np_sum_mat_times:
  assumes "square n M" and "square n C"
  shows "np_sum (mat_times M C) = (\<Sum>j<n. \<Sum>k<n. M ! j ! k * C ! j ! k)"
proof -
  have len: "length M = n" "length C = n" using assms by (simp_all add: square_def)
  have "np_sum (mat_times M C) = (\<Sum>j<n. sum_list (map2 (*) (M ! j) (C ! j)))"
    using len by (auto simp: np_sum_def mat_times_def sum_list_sum_nth atLeast0LessThan
                       intro!: sum.cong)
  also have "\<dots> = (\<Sum>j<n. \<Sum>k<n. M ! j ! k * C ! j ! k)"
    using assms by (intro sum.cong refl sum_list_map2_times) (simp_all add: square_nth)
  finally show ?thesis .
qed

lemma square_np_ones: "square n (np_ones n)"
  and square_np_zeros: "square n (np_zeros n)"
  by (simp_all add: square_def np_ones_def np_zeros_def list_all_length)

lemma nth_np_ones: "j < n \<Longrightarrow> k < n \<Longrightarrow> np_ones n ! j ! k = 1"
  and nth_np_zeros: "j < n \<Longrightarrow> k < n \<Longrightarrow> np_zeros n ! j ! k = 0"
  by (simp_all add: np_ones_def np_zeros_def)

lemma square_set_column: "square n M \<Longrightarrow> square n (set_column M c v)"
  by (simp add: square_def set_column_def list_all_length)

lemma square_set_row: "square n M \<Longrightarrow> r < n \<Longrightarrow> square n (set_row M r v)"
  by (auto simp: square_def set_row_def list_all_length nth_list_update)

lemma square_set_cell: "square n M \<Longrightarrow> r < n \<Longrightarrow> square n (set_cell M r c v)"
  by (auto simp: square_def set_cell_def list_all_length nth_list_update)

lemma nth_set_column:
  "square n M \<Longrightarrow> j < n \<Longrightarrow> k < n \<Longrightarrow>
   set_column M c v ! j ! k = (if k = c then v else M ! j ! k)"
  by (auto simp: square_def set_column_def list_all_length)

lemma nth_set_row:
  "square n M \<Longrightarrow> j < n \<Longrightarrow> k < n \<Longrightarrow> r < n \<Longrightarrow>
   set_row M r v ! j ! k = (if j = r then v else M ! j ! k)"
  by (auto simp: square_def set_row_def list_all_length nth_list_update)

lemma nth_set_cell:
  "square n M \<Longrightarrow> j < n \<Longrightarrow> k < n \<Longrightarrow> r < n \<Longrightarrow>
   set_cell M r c v ! j ! k = (if j = r \<and> k = c then v else M ! j ! k)"
  by (auto simp: square_def set_cell_def list_all_length nth_list_update)

lemma sum_skip:
  fixes f :: "nat \<Rightarrow> nat"
  shows "finite A \<Longrightarrow> (\<Sum>x\<in>A. if x = i then 0 else f x) = sum f (A - {i})"
  by (rule sum.mono_neutral_cong_right) auto

lemma sum_only:
  fixes f :: "nat \<Rightarrow> nat"
  shows "i < n \<Longrightarrow> (\<Sum>x<n. if x = i then f x else 0) = f i"
  by (simp add: sum.delta)

lemma mask_tn_sum:
  assumes "square n C" and "i < n"
  shows "np_sum (mat_times (set_row (set_column (np_ones n) i 0) i 0) C)
           = (\<Sum>j\<in>{..<n} - {i}. \<Sum>k\<in>{..<n} - {i}. C ! j ! k)"
proof -
  let ?M = "set_row (set_column (np_ones n) i 0) i 0"
  have sq: "square n ?M"
    using assms(2) by (intro square_set_row square_set_column square_np_ones)
  have ent: "?M ! j ! k = (if j = i then 0 else if k = i then 0 else 1)" if "j < n" "k < n" for j k
    using nth_set_row [OF square_set_column [OF square_np_ones] that assms(2), of i 0 0]
      nth_set_column [OF square_np_ones that, of i 0] nth_np_ones [OF that]
    by simp
  have "np_sum (mat_times ?M C) = (\<Sum>j<n. \<Sum>k<n. ?M ! j ! k * C ! j ! k)"
    by (rule np_sum_mat_times [OF sq assms(1)])
  also have "\<dots> = (\<Sum>j<n. if j = i then 0 else (\<Sum>k<n. if k = i then 0 else C ! j ! k))"
    by (intro sum.cong refl) (auto simp: ent intro!: sum.cong)
  also have "\<dots> = (\<Sum>j\<in>{..<n} - {i}. \<Sum>k\<in>{..<n} - {i}. C ! j ! k)"
    by (simp add: sum_skip)
  finally show ?thesis .
qed

lemma mask_fp_sum:
  assumes "square n C" and "i < n"
  shows "np_sum (mat_times (set_cell (set_column (np_zeros n) i 1) i i 0) C)
           = (\<Sum>j\<in>{..<n} - {i}. C ! j ! i)"
proof -
  define M where "M = set_cell (set_column (np_zeros n) i 1) i i 0"
  have sq: "square n M"
    unfolding M_def using assms(2)
    by (intro square_set_cell square_set_column square_np_zeros)
  have ent: "M ! j ! k = (if k = i then (if j = i then 0 else 1) else 0)" if "j < n" "k < n" for j k
    unfolding M_def
    using nth_set_cell [OF square_set_column [OF square_np_zeros] that assms(2), of i 1 i 0]
      nth_set_column [OF square_np_zeros that, of i 1] nth_np_zeros [OF that]
    by (cases "k = i") simp_all
  have "np_sum (mat_times M C) = (\<Sum>j<n. \<Sum>k<n. M ! j ! k * C ! j ! k)"
    by (rule np_sum_mat_times [OF sq assms(1)])
  also have "\<dots> = (\<Sum>j<n. \<Sum>k<n. if k = i then (if j = i then 0 else C ! j ! i) else 0)"
    by (intro sum.cong refl) (auto simp: ent)
  also have "\<dots> = (\<Sum>j<n. if j = i then 0 else C ! j ! i)"
    using assms(2) by (simp add: sum_only)
  also have "\<dots> = (\<Sum>j\<in>{..<n} - {i}. C ! j ! i)"
    by (simp add: sum_skip)
  finally show ?thesis unfolding M_def .
qed

lemma class_counts_values:
  assumes "square (length C) C" and "i < length C"
  shows "TP (class_counts C i) = C ! i ! i"
    and "TN (class_counts C i) = (\<Sum>j\<in>{..<length C} - {i}. \<Sum>k\<in>{..<length C} - {i}. C ! j ! k)"
    and "FP (class_counts C i) = (\<Sum>j\<in>{..<length C} - {i}. C ! j ! i)"
    and "FN (class_counts C i) = FP (class_counts C i)"
  using assms by (simp_all add: class_counts_def Let_def mask_tn_sum mask_fp_sum del: One_nat_def)

text \<open>
  C1, as stated, fails in both branches. With two classes each array of counts has one
  entry, the counts of class 1, so there is no entry per class, and the entry at
  position 0 of \<open>FN\<close> is \<open>C[1][0]\<close>, not \<open>C[0][1]\<close>. With three classes the mask for
  \<open>FN\<close> selects column \<open>i\<close> instead of row \<open>i\<close>, so \<open>FN\<close> repeats \<open>FP\<close>: for the true
  labels \<open>0, 0, 1, 2\<close> predicted as \<open>0, 1, 1, 2\<close> the entry of class 0 is 0, while row 0
  has one observation off the diagonal.
\<close>

theorem confusion_counts_counterexample:
  "get_confusion_matrix_and_counts [0, 1, 1] [0, 1, 0]
     = Inr \<lparr> confusion_mat = [[1, 0], [1, 1]],
             counts_by_class = \<lparr> TP = [1], TN = [1], FP = [0], FN = [1] \<rparr>,
             counts_overall = \<lparr> TP = 1, TN = 1, FP = 0, FN = 1 \<rparr> \<rparr>
   \<and> [[1, 0], [1, 1 :: nat]] ! 0 ! 1 \<noteq> [1 :: nat] ! 0
   \<and> get_confusion_matrix_and_counts [0, 0, 1, 2] [0, 1, 1, 2]
     = Inr \<lparr> confusion_mat = [[1, 1, 0], [0, 1, 0], [0, 0, 1]],
             counts_by_class = \<lparr> TP = [1, 1, 1], TN = [2, 2, 3], FP = [0, 1, 0], FN = [0, 1, 0] \<rparr>,
             counts_overall = \<lparr> TP = 3, TN = 7, FP = 1, FN = 1 \<rparr> \<rparr>
   \<and> [[1, 1, 0], [0, 1, 0], [0, 0, 1 :: nat]] ! 0 ! 1 + [[1, 1, 0], [0, 1, 0], [0, 0, 1]] ! 0 ! 2
       \<noteq> [0, 1, 0 :: nat] ! 0"
  by (simp add: get_confusion_matrix_and_counts_def confusion_matrix_def unique_labels_def
        counts_of_matrix_def class_counts_def np_ones_def np_zeros_def set_column_def
        set_row_def set_cell_def mat_times_def np_sum_def upt_rec Let_def)

text \<open>
  C1, amended. For true and predicted vectors of equal length, with \<open>C\<close> the confusion
  matrix: when \<open>C\<close> has two classes, each array of counts has the single entry of class
  1, \<open>TP = C[1][1]\<close>, \<open>TN = C[0][0]\<close>, \<open>FP = C[0][1]\<close>, \<open>FN = C[1][0]\<close>; otherwise each
  array has one entry per class, with \<open>TP\<^sub>i = C[i][i]\<close>, \<open>TN\<^sub>i\<close> the sum of \<open>C[j][k]\<close> over
  \<open>j \<noteq> i\<close> and \<open>k \<noteq> i\<close>, and \<open>FP\<^sub>i\<close> the sum of \<open>C[j][i]\<close> over \<open>j \<noteq> i\<close>. In both cases
  the overall counts are the sums of the returned arrays.
\<close>

theorem confusion_counts:
  assumes "length y_true = length y_pred"
  shows "\<exists>C r. confusion_matrix y_true y_pred = Inr C
           \<and> get_confusion_matrix_and_counts y_true y_pred = Inr r
           \<and> confusion_mat r = C
           \<and> (length C = 2 \<longrightarrow>
                counts_by_class r = \<lparr> TP = [C ! 1 ! 1], TN = [C ! 0 ! 0],
                                       FP = [C ! 0 ! 1], FN = [C ! 1 ! 0] \<rparr>)
           \<and> (length C \<noteq> 2 \<longrightarrow>
                length (TP (counts_by_class r)) = length C
              \<and> length (TN (counts_by_class r)) = length C
              \<and> length (FP (counts_by_class r)) = length C
              \<and> length (FN (counts_by_class r)) = length C
              \<and> (\<forall>i<length C.
                    TP (counts_by_class r) ! i = C ! i ! i
                  \<and> TN (counts_by_class r) ! i
                      = (\<Sum>j\<in>{..<length C} - {i}. \<Sum>k\<in>{..<length C} - {i}. C ! j ! k)
                  \<and> FP (counts_by_class r) ! i = (\<Sum>j\<in>{..<length C} - {i}. C ! j ! i)))
           \<and> counts_overall r
               = \<lparr> TP = sum_list (TP (counts_by_class r)), TN = sum_list (TN (counts_by_class r)),
                   FP = sum_list (FP (counts_by_class r)), FN = sum_list (FN (counts_by_class r)) \<rparr>"
proof -
  obtain C where C: "confusion_matrix y_true y_pred = Inr C"
    using assms by (simp add: confusion_matrix_def)
  have sq: "square (length C) C" by (rule confusion_matrix_square [OF C])
  have run: "get_confusion_matrix_and_counts y_true y_pred = Inr (counts_of_matrix C)"
    by (simp add: get_confusion_matrix_and_counts_def C)
  have bin: "length C = 2 \<Longrightarrow> counts_by_class (counts_of_matrix C)
               = \<lparr> TP = [C ! 1 ! 1], TN = [C ! 0 ! 0], FP = [C ! 0 ! 1], FN = [C ! 1 ! 0] \<rparr>"
    by (simp add: counts_of_matrix_def)
  have multi: "counts_by_class (counts_of_matrix C)
                 = \<lparr> TP = map TP (map (class_counts C) [0..<length C]),
                     TN = map TN (map (class_counts C) [0..<length C]),
                     FP = map FP (map (class_counts C) [0..<length C]),
                     FN = map FN (map (class_counts C) [0..<length C]) \<rparr>"
    if "length C \<noteq> 2"
    using that by (simp add: counts_of_matrix_def Let_def)
  have overall: "counts_overall (counts_of_matrix C)
      = \<lparr> TP = sum_list (TP (counts_by_class (counts_of_matrix C))),
          TN = sum_list (TN (counts_by_class (counts_of_matrix C))),
          FP = sum_list (FP (counts_by_class (counts_of_matrix C))),
          FN = sum_list (FN (counts_by_class (counts_of_matrix C))) \<rparr>"
    by (simp add: counts_of_matrix_def Let_def)
  have mat: "confusion_mat (counts_of_matrix C) = C"
    by (simp add: counts_of_matrix_def Let_def)
  show ?thesis
    using C run mat bin overall
    by (auto simp: multi class_counts_values [OF sq])
qed

theorem confusion_counts_witness:
  "get_confusion_matrix_and_counts [0, 0, 1, 2] [0, 1, 1, 2]
     = Inr \<lparr> confusion_mat = [[1, 1, 0], [0, 1, 0], [0, 0, 1]],
             counts_by_class = \<lparr> TP = [1, 1, 1], TN = [2, 2, 3], FP = [0, 1, 0], FN = [0, 1, 0] \<rparr>,
             counts_overall = \<lparr> TP = 3, TN = 7, FP = 1, FN = 1 \<rparr> \<rparr>
   \<and> get_confusion_matrix_and_counts [0, 1, 1] [0, 1, 0]
     = Inr \<lparr> confusion_mat = [[1, 0], [1, 1]],
             counts_by_class = \<lparr> TP = [1], TN = [1], FP = [0], FN = [1] \<rparr>,
             counts_overall = \<lparr> TP = 1, TN = 1, FP = 0, FN = 1 \<rparr> \<rparr>"
proof -
  have l3: "length [0, 0, 1, 2 :: nat] = length [0, 1, 1, 2 :: nat]" by simp
  have l2: "length [0, 1, 1 :: nat] = length [0, 1, 0 :: nat]" by simp
  from confusion_counts [OF l3] confusion_counts [OF l2]
  show ?thesis
    by (simp add: get_confusion_matrix_and_counts_def confusion_matrix_def unique_labels_def
        counts_of_matrix_def class_counts_def np_ones_def np_zeros_def set_column_def
        set_row_def set_cell_def mat_times_def np_sum_def upt_rec Let_def)
qed

section \<open>Statistics by class\<close>

text \<open>
  C2. The labels passed to the scoring by class, and the rows of the table, are
  \<^verbatim>\<open>range(len(text_labels)-1)\<close>, so the last text label is left out. Evaluated for three
  text labels: whatever the scoring function, it is called with the labels \<open>0\<close> and \<open>1\<close>
  only, while the counts from the confusion matrix have three entries; and the table
  has rows for the first two labels only.
\<close>

theorem class_stats_omit_last_label:
  "map_sum id class_stats
     (get_common_stats score f1
        [\<lparr> example = ''wake me'', expected = ''alarm'', predicted = ''alarm'', probas = [] \<rparr>,
         \<lparr> example = ''play jazz'', expected = ''music'', predicted = ''weather'', probas = [] \<rparr>,
         \<lparr> example = ''is it hot'', expected = ''weather'', predicted = ''weather'', probas = [] \<rparr>]
        [0, 1, 2] [0, 2, 2] [''alarm'', ''music'', ''weather''])
     = Inr (get_class_stats score [0, 1, 2] [0, 2, 2] [0, 1]
            @ [(''TP'', [1, 0, 1]), (''TN'', [2, 2, 1]), (''FP'', [0, 0, 1]), (''FN'', [0, 0, 1])])
   \<and> print_class_stats_table
       [(''precision'', [1, 0]), (''recall'', [1, 0]), (''f_beta'', [1, 0]), (''support'', [1, 1]),
        (''TP'', [1, 0, 1]), (''TN'', [2, 2, 1]), (''FP'', [0, 0, 1]), (''FN'', [0, 0, 1])]
       [''alarm'', ''music'', ''weather'']
     = Inr [(''alarm'', [1, 1, 1, 1, 1, 2, 0, 0]), (''music'', [0, 0, 0, 1, 0, 2, 0, 0])]"
  by (simp add: get_common_stats_def get_overall_stats_def get_accuracy_def
        get_confusion_matrix_and_counts_def confusion_matrix_def unique_labels_def
        counts_of_matrix_def class_counts_def np_ones_def np_zeros_def set_column_def
        set_row_def set_cell_def mat_times_def np_sum_def upt_rec Let_def
        print_class_stats_table_def truncate_label_def)

text \<open>
  The same through \<^verbatim>\<open>print_stats\<close>: \<open>raw_results\<close> registers the predicted label of a result
  before the expected one, so these three results give the text labels in the order
  alarm, weather, music; the labels passed on are again \<open>0\<close> and \<open>1\<close>, and the table has
  no row for the last text label, here music.
\<close>

lemma print_stats_omit_last_label:
  "raw_results
     [\<lparr> example = ''wake me'', expected = ''alarm'', predicted = ''alarm'', probas = [] \<rparr>,
      \<lparr> example = ''play jazz'', expected = ''music'', predicted = ''weather'', probas = [] \<rparr>,
      \<lparr> example = ''is it hot'', expected = ''weather'', predicted = ''weather'', probas = [] \<rparr>]
     = Inr \<lparr> RawResults.predicted = [0, 1, 1], RawResults.expected = [0, 2, 1],
             text_labels = [''alarm'', ''weather'', ''music''] \<rparr>
   \<and> map_sum id class_stats
     (get_common_stats score f1
        [\<lparr> example = ''wake me'', expected = ''alarm'', predicted = ''alarm'', probas = [] \<rparr>,
         \<lparr> example = ''play jazz'', expected = ''music'', predicted = ''weather'', probas = [] \<rparr>,
         \<lparr> example = ''is it hot'', expected = ''weather'', predicted = ''weather'', probas = [] \<rparr>]
        [0, 2, 1] [0, 1, 1] [''alarm'', ''weather'', ''music''])
     = Inr (get_class_stats score [0, 2, 1] [0, 1, 1] [0, 1]
            @ [(''TP'', [1, 1, 0]), (''TN'', [2, 1, 2]), (''FP'', [0, 1, 0]), (''FN'', [0, 1, 0])])
   \<and> print_class_stats_table
       [(''precision'', [1, 1 / 2]), (''recall'', [1, 1]), (''f_beta'', [1, 2 / 3]),
        (''support'', [1, 1]),
        (''TP'', [1, 1, 0]), (''TN'', [2, 1, 2]), (''FP'', [0, 1, 0]), (''FN'', [0, 1, 0])]
       [''alarm'', ''weather'', ''music'']
     = Inr [(''alarm'', [1, 1, 1, 1, 1, 2, 0, 0]), (''weather'', [2 / 3, 1 / 2, 1, 1, 1, 1, 1, 1])]"
  by (simp add: raw_results_def update_raw_result_def
        get_common_stats_def get_overall_stats_def get_accuracy_def
        get_confusion_matrix_and_counts_def confusion_matrix_def unique_labels_def
        counts_of_matrix_def class_counts_def np_ones_def np_zeros_def set_column_def
        set_row_def set_cell_def mat_times_def np_sum_def upt_rec Let_def
        print_class_stats_table_def truncate_label_def)

text \<open>The table never has a row for the last text label.\<close>

lemma print_rows_length:
  "print_rows stats titles tls labels = Inr printed \<Longrightarrow> length printed = length labels"
  by (induction labels arbitrary: printed) (auto split: sum.splits)

lemma print_class_stats_table_rows:
  "print_class_stats_table stats tls = Inr printed \<Longrightarrow> length printed = length tls - 1"
  by (auto simp: print_class_stats_table_def Let_def dest: print_rows_length)

section \<open>The two branches of fitting\<close>

text \<open>
  C4, as stated, fails for an explicit empty dictionary of params: it is not \<^verbatim>\<open>None\<close>,
  so parameter selection is skipped, but \<^verbatim>\<open>params or self.config.params\<close> replaces it by
  the params of the configuration, which are then used to fit and recorded.
\<close>

theorem fit_empty_params_counterexample:
  "map_sum id (\<lambda>m. (clf m, current_params m))
     (fit recording_collaborators (new_model (svm_config (Some [(''C'', PyInt 1)]) None))
        [''wake me'', ''play jazz''] [''alarm'', ''music''] (Some []))
     = Inr (Some (Fitted (Some [(''C'', PyInt 1)])), Some [(''C'', PyInt 1)])
   \<and> Some [] \<noteq> (None :: pydict option)
   \<and> Some [(''C'', PyInt 1)] \<noteq> Some ([] :: pydict)"
  by (simp add: fit_def recording_collaborators_def new_model_def svm_config_def py_or_def
        shuffle_examples_labels_def get_feature_matrix_def encode_def upt_rec Let_def)

text \<open>
  C4, amended. When the params argument is \<^verbatim>\<open>None\<close> and the configuration has a
  \<open>param_selection\<close>, the result of \<open>fit\<close> does not depend on the function that fits a
  single classifier, and when \<open>fit\<close> returns, the classifier and the recorded params are
  the best estimator and best params of a grid search run with the iterator and the grid
  of \<open>param_selection\<close>. Otherwise the result does not depend on the grid search, and
  when \<open>fit\<close> returns, the classifier was fitted with, and the recorded params are, the
  explicit params if they are a non-empty dictionary and the params of the configuration
  if the argument is \<^verbatim>\<open>None\<close> or empty.
\<close>

theorem fit_branches:
  "(explicit_params = None \<and> param_selection (config self) \<noteq> None \<longrightarrow>
      fit (env\<lparr>fit_classifier := f\<rparr>) self examples labels explicit_params
        = fit env self examples labels explicit_params
    \<and> (\<forall>self'. fit env self examples labels explicit_params = Inr self' \<longrightarrow>
          (\<exists>sel cv grid X y groups c best_params score.
              param_selection (config self) = Some sel
            \<and> get_cv_iterator (Some sel) = Inr (Some cv)
            \<and> getitem sel ''grid'' = Inr grid
            \<and> grid_search env cv (dict_get sel ''scoring'' (PyStr ''accuracy''))
                 (dict_get sel ''n_jobs'' (PyInt (- 1))) grid X y groups
                 = Inr (c, best_params, score)
            \<and> clf self' = Some c \<and> current_params self' = Some best_params)))
   \<and> (\<not> (explicit_params = None \<and> param_selection (config self) \<noteq> None) \<longrightarrow>
      fit (env\<lparr>grid_search := g\<rparr>) self examples labels explicit_params
        = fit env self examples labels explicit_params
    \<and> (\<forall>self'. fit env self examples labels explicit_params = Inr self' \<longrightarrow>
          (\<exists>X y c ps.
              ps = (if explicit_params = None \<or> explicit_params = Some [] then params (config self) else explicit_params)
            \<and> fit_classifier env X y ps = Inr c
            \<and> clf self' = Some c \<and> current_params self' = ps)))"
proof (intro conjI impI allI)
  assume cv: "explicit_params = None \<and> param_selection (config self) \<noteq> None"
  then obtain sel where sel: "param_selection (config self) = Some sel" by auto
  show "fit (env\<lparr>fit_classifier := f\<rparr>) self examples labels explicit_params
          = fit env self examples labels explicit_params"
    using cv sel
    by (simp add: fit_def fit_cv_def get_feature_matrix_def py_or_def Let_def
          split: sum.splits option.splits prod.splits)
  fix self'
  assume ok: "fit env self examples labels explicit_params = Inr self'"
  show "\<exists>sel cv grid X y groups c best_params score.
              param_selection (config self) = Some sel
            \<and> get_cv_iterator (Some sel) = Inr (Some cv)
            \<and> getitem sel ''grid'' = Inr grid
            \<and> grid_search env cv (dict_get sel ''scoring'' (PyStr ''accuracy''))
                 (dict_get sel ''n_jobs'' (PyInt (- 1))) grid X y groups
                 = Inr (c, best_params, score)
            \<and> clf self' = Some c \<and> current_params self' = Some best_params"
    using cv sel ok
    by (auto simp: fit_def fit_cv_def py_or_def Let_def
          split: sum.splits option.splits prod.splits if_splits; blast)
next
  assume single: "\<not> (explicit_params = None \<and> param_selection (config self) \<noteq> None)"
  show "fit (env\<lparr>grid_search := g\<rparr>) self examples labels explicit_params
          = fit env self examples labels explicit_params"
    using single
    by (auto simp: fit_def get_feature_matrix_def Let_def
          split: sum.splits option.splits prod.splits)
  fix self'
  assume ok: "fit env self examples labels explicit_params = Inr self'"
  have ps: "py_or explicit_params (params (config self))
              = (if explicit_params = None \<or> explicit_params = Some [] then params (config self) else explicit_params)"
    by (cases explicit_params) (auto simp: py_or_def)
  show "\<exists>X y c ps.
              ps = (if explicit_params = None \<or> explicit_params = Some [] then params (config self) else explicit_params)
            \<and> fit_classifier env X y ps = Inr c
            \<and> clf self' = Some c \<and> current_params self' = ps"
    using single ok unfolding ps [symmetric]
    by (auto simp: fit_def Let_def split: sum.splits prod.splits if_splits; blast)
qed

theorem fit_branches_witness:
  "map_sum id (\<lambda>m. (clf m, current_params m, cv_loss m))
     (fit recording_collaborators
        (new_model (svm_config None
           (Some [(''type'', PyStr ''k-fold''), (''k'', PyInt 5),
                  (''grid'', PyDict [(''C'', PyList [PyInt 1, PyInt 10])])])))
        [''wake me'', ''play jazz''] [''alarm'', ''music''] None)
     = Inr (Some (Searched (KFold (PyInt 5)) (PyDict [(''C'', PyList [PyInt 1, PyInt 10])])),
            Some [(''C'', PyInt 10)], Some (1 / 10))
   \<and> map_sum id (\<lambda>m. (clf m, current_params m, cv_loss m))
     (fit recording_collaborators
        (new_model (svm_config (Some [(''C'', PyInt 1)])
           (Some [(''type'', PyStr ''k-fold''), (''k'', PyInt 5),
                  (''grid'', PyDict [(''C'', PyList [PyInt 1, PyInt 10])])])))
        [''wake me'', ''play jazz''] [''alarm'', ''music''] (Some [(''C'', PyInt 3)]))
     = Inr (Some (Fitted (Some [(''C'', PyInt 3)])), Some [(''C'', PyInt 3)], None)"
  using fit_branches [where explicit_params = None and env = recording_collaborators
          and self = "new_model (svm_config None
             (Some [(''type'', PyStr ''k-fold''), (''k'', PyInt 5),
                    (''grid'', PyDict [(''C'', PyList [PyInt 1, PyInt 10])])]))"
          and examples = "[''wake me'', ''play jazz'']" and labels = "[''alarm'', ''music'']"
          and f = "fit_classifier recording_collaborators"
          and g = "grid_search recording_collaborators"]
        fit_branches [where explicit_params = "Some [(''C'', PyInt 3)]" and env = recording_collaborators
          and self = "new_model (svm_config (Some [(''C'', PyInt 1)])
             (Some [(''type'', PyStr ''k-fold''), (''k'', PyInt 5),
                    (''grid'', PyDict [(''C'', PyList [PyInt 1, PyInt 10])])]))"
          and examples = "[''wake me'', ''play jazz'']" and labels = "[''alarm'', ''music'']"
          and f = "fit_classifier recording_collaborators"
          and g = "grid_search recording_collaborators"]
  by (simp add: fit_def fit_cv_def recording_collaborators_def new_model_def svm_config_def
        py_or_def shuffle_examples_labels_def get_feature_matrix_def encode_def upt_rec Let_def
        get_cv_iterator_def getitem_def dict_get_def cv_dispatch_def k_fold_iterator_def)

end
